theory Spec2Isabelle
  imports Main
begin

section \<open>JavaScript strings\<close>

text \<open>
  Source texts and identifier names are modelled as \<^typ>\<open>string\<close>: lists of 8-bit code
  units.  Of the four ECMAScript line terminators only LF and CR exist in this alphabet
  (U+2028 and U+2029 lie outside it).
\<close>

definition isLineTerminator :: "char \<Rightarrow> bool" where
  "isLineTerminator c = (c = CHR 0x0A \<or> c = CHR 0x0D)"

text \<open>\<^verbatim>\<open>s.startsWith(p)\<close>, \<^verbatim>\<open>s.endsWith(p)\<close>, \<^verbatim>\<open>s.includes(c)\<close> for a one-character
  \<^verbatim>\<open>c\<close>, \<^verbatim>\<open>s.substring(n)\<close> and \<^verbatim>\<open>s.split(c)[0]\<close>.\<close>

definition startsWith :: "string \<Rightarrow> string \<Rightarrow> bool" where
  "startsWith s p = (take (length p) s = p)"

definition endsWith :: "string \<Rightarrow> string \<Rightarrow> bool" where
  "endsWith s p = (length p \<le> length s \<and> drop (length s - length p) s = p)"

definition includesChar :: "string \<Rightarrow> char \<Rightarrow> bool" where
  "includesChar s c = (c \<in> set s)"

definition substring :: "string \<Rightarrow> nat \<Rightarrow> string" where
  "substring s n = drop n s"

definition splitFirst :: "char \<Rightarrow> string \<Rightarrow> string" where
  "splitFirst c s = takeWhile (\<lambda>x. x \<noteq> c) s"

text \<open>\<^verbatim>\<open>s.indexOf(p)\<close>: the first index at which \<^verbatim>\<open>p\<close> occurs, \<open>-1\<close> when it does not.\<close>

fun indexOfFrom :: "int \<Rightarrow> string \<Rightarrow> string \<Rightarrow> int" where
  "indexOfFrom i [] p = (if p = [] then i else -1)"
| "indexOfFrom i (c # cs) p =
     (if startsWith (c # cs) p then i else indexOfFrom (i + 1) cs p)"

definition indexOf :: "string \<Rightarrow> string \<Rightarrow> int" where
  "indexOf s p = indexOfFrom 0 s p"

text \<open>\<^verbatim>\<open>s.toLowerCase()\<close> on 8-bit code units: A-Z and the Latin-1 capitals (U+00C0 to
  U+00DE, the multiplication sign U+00D7 apart) move up by 32.\<close>

definition lowerChar :: "char \<Rightarrow> char" where
  "lowerChar c =
     (let n = (of_char c :: nat) in
      if (65 \<le> n \<and> n \<le> 90) \<or> (192 \<le> n \<and> n \<le> 222 \<and> n \<noteq> 215)
      then char_of (n + 32) else c)"

definition toLowerCase :: "string \<Rightarrow> string" where
  "toLowerCase s = map lowerChar s"

text \<open>\<^verbatim>\<open>s.replace(/ +$/gm, '')\<close>: every run of spaces that reaches the end of the text or a
  line terminator is removed.  The walk keeps the number of spaces seen since the last
  other character and gives them back only when a character that ends no line follows.\<close>

fun stripFrom :: "nat \<Rightarrow> string \<Rightarrow> string" where
  "stripFrom k [] = []"
| "stripFrom k (c # cs) =
     (if c = CHR '' '' then stripFrom (Suc k) cs
      else if isLineTerminator c then c # stripFrom 0 cs
      else replicate k (CHR '' '') @ c # stripFrom 0 cs)"

definition stripTrailingSpaces :: "string \<Rightarrow> string" where
  "stripTrailingSpaces s = stripFrom 0 s"

text \<open>\<^verbatim>\<open>String(n)\<close> for a non-negative integer, as used by the template \<^verbatim>\<open>`arg${index}`\<close>.\<close>

definition digitChar :: "nat \<Rightarrow> char" where
  "digitChar d = char_of (48 + d)"

fun showNat :: "nat \<Rightarrow> string" where
  "showNat n = (if n < 10 then [digitChar n] else showNat (n div 10) @ [digitChar (n mod 10)])"

declare showNat.simps [simp del]

subsection \<open>The regular expressions of the plugins\<close>

text \<open>The patterns used with \<^verbatim>\<open>RegExp.test\<close> are alternatives of sequences of literal
  characters and the dot, which matches any character but a line terminator.  \<^verbatim>\<open>test\<close>
  succeeds when some alternative matches at some position.\<close>

datatype atom = Lit char | Dot

fun matchAtom :: "atom \<Rightarrow> char \<Rightarrow> bool" where
  "matchAtom (Lit a) c = (a = c)"
| "matchAtom Dot c = (\<not> isLineTerminator c)"

fun matchHere :: "atom list \<Rightarrow> string \<Rightarrow> bool" where
  "matchHere [] s = True"
| "matchHere (a # as) [] = False"
| "matchHere (a # as) (c # cs) = (matchAtom a c \<and> matchHere as cs)"

fun searchSeq :: "atom list \<Rightarrow> string \<Rightarrow> bool" where
  "searchSeq p [] = matchHere p []"
| "searchSeq p (c # cs) = (matchHere p (c # cs) \<or> searchSeq p cs)"

definition regexTest :: "atom list list \<Rightarrow> string \<Rightarrow> bool" where
  "regexTest alts s = list_ex (\<lambda>p. searchSeq p s) alts"

definition lits :: "string \<Rightarrow> atom list" where
  "lits s = map Lit s"

text \<open>\<^verbatim>\<open>/prop-types|react-validators/\<close>, \<^verbatim>\<open>/prop-types/\<close>,
  \<^verbatim>\<open>/PropTypes.shape|Shape|Types.shape/\<close> and \<^verbatim>\<open>/arrayOf/\<close>.\<close>

definition rxValidationImport :: "atom list list" where
  "rxValidationImport = [lits ''prop-types'', lits ''react-validators'']"

definition rxPropTypes :: "atom list list" where
  "rxPropTypes = [lits ''prop-types'']"

definition rxShape :: "atom list list" where
  "rxShape = [lits ''PropTypes'' @ [Dot] @ lits ''shape'', lits ''Shape'',
              lits ''Types'' @ [Dot] @ lits ''shape'']"

definition rxArrayOf :: "atom list list" where
  "rxArrayOf = [lits ''arrayOf'']"

section \<open>Syntax trees\<close>

text \<open>
  The plugins receive the tree the TypeScript parser built.  A node carries its text range:
  \<open>pos\<close> (where its leading trivia begins), the start of its first token, and its end;
  \<^verbatim>\<open>getText()\<close> and \<^verbatim>\<open>getFullText()\<close> read the source text between them.  A node made by
  the factory has no range (\<open>synthetic\<close>).
\<close>

datatype TextRange = TextRange (pos: int) (tokenStart: int) (endPos: int)

definition synthetic :: TextRange where
  "synthetic = TextRange (-1) (-1) (-1)"

text \<open>\<^verbatim>\<open>s.substring(i, j)\<close>: negative offsets count as 0, offsets past the end as the
  length, and the smaller of the two is the start.  \<^verbatim>\<open>s.slice(i, j)\<close> for offsets that are
  not negative: empty when \<open>j\<close> is not after \<open>i\<close>.\<close>

definition substringFromTo :: "string \<Rightarrow> int \<Rightarrow> int \<Rightarrow> string" where
  "substringFromTo s i j =
     (let a = min (nat i) (nat j); b = max (nat i) (nat j) in take (b - a) (drop a s))"

definition slice :: "string \<Rightarrow> int \<Rightarrow> int \<Rightarrow> string" where
  "slice s i j = take (nat j - nat i) (drop (nat i) s)"

definition getText :: "string \<Rightarrow> TextRange \<Rightarrow> string" where
  "getText src r = substringFromTo src (tokenStart r) (endPos r)"

definition getFullText :: "string \<Rightarrow> TextRange \<Rightarrow> string" where
  "getFullText src r = substringFromTo src (pos r) (endPos r)"

datatype EntityName = Identifier string | QualifiedName EntityName string

datatype Expression =
    IdentifierExpression TextRange string
  | StringLiteral TextRange string
  | CallExpression TextRange Expression "Expression list"
  | ObjectLiteralExpression TextRange
  | OtherExpression TextRange

fun rangeOf :: "Expression \<Rightarrow> TextRange" where
  "rangeOf (IdentifierExpression r _) = r"
| "rangeOf (StringLiteral r _) = r"
| "rangeOf (CallExpression r _ _) = r"
| "rangeOf (ObjectLiteralExpression r) = r"
| "rangeOf (OtherExpression r) = r"

datatype KeywordKind =
    StringKeyword | NumberKeyword | BooleanKeyword | SymbolKeyword | ObjectKeyword
  | AnyKeyword | UnknownKeyword | NeverKeyword | VoidKeyword | UndefinedKeyword
  | BigIntKeyword

datatype ModifierKind =
    ExportKeyword | DeclareKeyword | DefaultKeyword | ConstKeyword | PublicKeyword
  | PrivateKeyword | ProtectedKeyword | AbstractKeyword | StaticKeyword | OverrideKeyword
  | ReadonlyKeyword | AccessorKeyword | AsyncKeyword | InKeyword | OutKeyword

datatype BindingName =
    BindingIdentifier TextRange string
  | ObjectBindingPattern TextRange
  | ArrayBindingPattern TextRange

text \<open>Type nodes, both the ones the parser reads in documentation comments and the ones
  the plugins build.  A parameter's \<open>name\<close> is absent in a documentary function type such
  as \<^verbatim>\<open>function(string, number)\<close>; its \<open>questionToken\<close> is a flag.\<close>

datatype TypeNode =
    KeywordTypeNode KeywordKind
  | TypeReferenceNode EntityName "TypeNode list option"
  | ArrayTypeNode TypeNode
  | UnionTypeNode "TypeNode list"
  | NullLiteralTypeNode
  | TypeLiteralNode "TypeElement list"
  | FunctionTypeNode "ParameterDeclaration list" TypeNode
  | JSDocAllType
  | JSDocUnknownType
  | JSDocOptionalType TypeNode
  | JSDocNonNullableType TypeNode
  | JSDocNullableType TypeNode
  | JSDocVariadicType TypeNode
  | JSDocFunctionType "ParameterDeclaration list" "TypeNode option"
  | JSDocTypeLiteral "JSDocPropertyLikeTag list option"
  | OtherTypeNode string
and TypeElement =
    PropertySignature string bool TypeNode
  | IndexSignature "ParameterDeclaration list" TypeNode
and ParameterDeclaration =
    ParameterDeclaration (paramModifiers: "ModifierKind list") (dotDotDotToken: bool)
      (paramName: "BindingName option") (questionToken: bool) (paramType: "TypeNode option")
      (paramInitializer: "Expression option")
and JSDocPropertyLikeTag =
    JSDocPropertyLikeTag (propertyName: EntityName) (propertyTypeExpression: "TypeNode option")
      (propertyIsBracketed: bool)

section \<open>The jsdoc plugin: documentary types\<close>

text \<open>An entry of the type map is a plain rename or a record with an optional \<open>tsName\<close>
  and an optional \<open>acceptsTypeParameters\<close>.\<close>

datatype TypeOptions =
    Rename string
  | TypeRecord (tsName: "string option") (acceptsTypeParameters: "bool option")

type_synonym TypeMap = "string \<rightharpoonup> TypeOptions"

definition defaultTypeMap :: TypeMap where
  "defaultTypeMap = map_of
     [(''String'', TypeRecord (Some ''string'') (Some False)),
      (''Boolean'', TypeRecord (Some ''boolean'') (Some False)),
      (''Number'', TypeRecord (Some ''number'') (Some False)),
      (''Object'', TypeRecord (Some ''object'') (Some False)),
      (''date'', TypeRecord (Some ''Date'') (Some False)),
      (''Date'', TypeRecord (Some ''Date'') (Some False)),
      (''Symbol'', TypeRecord (Some ''symbol'') (Some False)),
      (''Function'', TypeRecord (Some ''Function'') (Some False)),
      (''array'', Rename ''Array''),
      (''Array'', Rename ''Array''),
      (''promise'', Rename ''Promise'')]"

text \<open>\<^verbatim>\<open>{ ...defaultTypeMap, ...optionsTypeMap }\<close>: the entries of the options win.\<close>

definition mergedTypeMap :: "TypeMap \<Rightarrow> TypeMap" where
  "mergedTypeMap optionsTypeMap = defaultTypeMap ++ optionsTypeMap"

definition PRIMITIVE_KEYWORDS :: "string \<rightharpoonup> KeywordKind" where
  "PRIMITIVE_KEYWORDS = map_of
     [(''string'', StringKeyword),
      (''number'', NumberKeyword),
      (''boolean'', BooleanKeyword),
      (''symbol'', SymbolKeyword),
      (''object'', ObjectKeyword)]"

definition primitiveKeywordNode :: "string \<Rightarrow> TypeNode option" where
  "primitiveKeywordNode name = map_option KeywordTypeNode (PRIMITIVE_KEYWORDS name)"

fun getEntityNameText :: "EntityName \<Rightarrow> string" where
  "getEntityNameText (Identifier text) = text"
| "getEntityNameText (QualifiedName left right) = getEntityNameText left @ ''.'' @ right"

text \<open>\<^verbatim>\<open>factory.createTypeReferenceNode(typeName, typeArguments)\<close>: the factory keeps a
  list of type arguments only when it has an element, so an empty list leaves the node
  without type arguments.\<close>

definition createTypeReferenceNode :: "EntityName \<Rightarrow> TypeNode list option \<Rightarrow> TypeNode" where
  "createTypeReferenceNode typeName typeArguments =
     TypeReferenceNode typeName
       (case typeArguments of None \<Rightarrow> None | Some [] \<Rightarrow> None | Some (a # as) \<Rightarrow> Some (a # as))"

text \<open>\<^verbatim>\<open>anyAlias ? createTypeReferenceNode(anyAlias, undefined) : any\<close>; the empty
  string is falsy.\<close>

definition anyType :: "string option \<Rightarrow> TypeNode" where
  "anyType anyAlias =
     (case anyAlias of
        None \<Rightarrow> KeywordTypeNode AnyKeyword
      | Some a \<Rightarrow> if a = [] then KeywordTypeNode AnyKeyword
                  else createTypeReferenceNode (Identifier a) None)"

text \<open>The lookup of a reference's name in the type map (\<^verbatim>\<open>text in typeMap\<close>): the name
  to use and whether type arguments are kept.  A name the map does not hold keeps both
  defaults, and so does a name that only the prototype of the map object holds, since
  what is found there has no \<open>tsName\<close> and no \<open>acceptsTypeParameters\<close>.  An empty
  \<open>tsName\<close> is falsy and renames nothing.\<close>

definition resolveTypeName :: "TypeMap \<Rightarrow> string \<Rightarrow> string \<times> bool" where
  "resolveTypeName typeMap text =
     (case typeMap text of
        None \<Rightarrow> (text, True)
      | Some (Rename s) \<Rightarrow> (s, True)
      | Some (TypeRecord tn acc) \<Rightarrow>
          ((case tn of None \<Rightarrow> text | Some s \<Rightarrow> if s = [] then text else s),
           acc \<noteq> Some False))"

fun isJSDocIndexSignature :: "TypeNode \<Rightarrow> bool" where
  "isJSDocIndexSignature (TypeReferenceNode (Identifier text) (Some [k, v])) =
     (text = ''Object'' \<and> (k = KeywordTypeNode StringKeyword \<or> k = KeywordTypeNode NumberKeyword))"
| "isJSDocIndexSignature _ = False"

text \<open>\<open>visitJSDocIndexSignature\<close> reads the two type arguments as they are: the key
  becomes a parameter \<open>n\<close> or \<open>s\<close> typed by a reference to \<open>number\<close> or \<open>string\<close>, made
  with an empty argument list, and the value type is not visited.\<close>

definition visitJSDocIndexSignature :: "TypeNode \<Rightarrow> TypeNode \<Rightarrow> TypeNode" where
  "visitJSDocIndexSignature k v =
     (let isNumber = (k = KeywordTypeNode NumberKeyword);
          index = ParameterDeclaration [] False
            (Some (BindingIdentifier synthetic (if isNumber then ''n'' else ''s''))) False
            (Some (createTypeReferenceNode
               (Identifier (if isNumber then ''number'' else ''string'')) (Some []))) None
      in TypeLiteralNode [IndexSignature [index] v])"

text \<open>After a visited type argument: a reference to a bare primitive name becomes the
  keyword.\<close>

definition normalizeArg :: "TypeNode \<Rightarrow> TypeNode" where
  "normalizeArg visited =
     (case visited of
        TypeReferenceNode (Identifier text) _ \<Rightarrow>
          (case primitiveKeywordNode text of Some innerPrim \<Rightarrow> innerPrim | None \<Rightarrow> visited)
      | _ \<Rightarrow> visited)"

definition propertyTagName :: "EntityName \<Rightarrow> string" where
  "propertyTagName n = (case n of Identifier text \<Rightarrow> text | QualifiedName _ right \<Rightarrow> right)"

text \<open>
  The visitors, with the type map and the any type of the enclosing transformer as
  arguments.  \<open>visitJSDocParameter\<close> also takes the number of parameters of the function
  type and the parameter's index in it (\<^verbatim>\<open>node.parent.parameters.indexOf(node)\<close>).
  In \<open>visitJSDocPropertyLikeTag\<close> the test \<^verbatim>\<open>ts.isJSDocOptionalType(node.typeExpression)\<close>
  is applied to the type expression wrapper, which is never an optional type node, so only
  the bracket makes a property optional.
\<close>

fun visitJSDocType :: "TypeMap \<Rightarrow> TypeNode \<Rightarrow> TypeNode \<Rightarrow> TypeNode"
and visitJSDocTypeReference ::
  "TypeMap \<Rightarrow> TypeNode \<Rightarrow> EntityName \<Rightarrow> TypeNode list option \<Rightarrow> TypeNode"
and visitJSDocParameters ::
  "TypeMap \<Rightarrow> TypeNode \<Rightarrow> nat \<Rightarrow> nat \<Rightarrow> ParameterDeclaration list \<Rightarrow> ParameterDeclaration list"
and visitJSDocParameter ::
  "TypeMap \<Rightarrow> TypeNode \<Rightarrow> nat \<Rightarrow> nat \<Rightarrow> ParameterDeclaration \<Rightarrow> ParameterDeclaration"
and visitJSDocPropertyLikeTag ::
  "TypeMap \<Rightarrow> TypeNode \<Rightarrow> JSDocPropertyLikeTag \<Rightarrow> TypeElement"
where
  "visitJSDocType typeMap anyT JSDocAllType = anyT"
| "visitJSDocType typeMap anyT JSDocUnknownType = anyT"
| "visitJSDocType typeMap anyT (JSDocOptionalType t) = visitJSDocType typeMap anyT t"
| "visitJSDocType typeMap anyT (JSDocNonNullableType t) = visitJSDocType typeMap anyT t"
| "visitJSDocType typeMap anyT (JSDocNullableType t) =
     UnionTypeNode [visitJSDocType typeMap anyT t, NullLiteralTypeNode]"
| "visitJSDocType typeMap anyT (JSDocVariadicType t) =
     ArrayTypeNode (visitJSDocType typeMap anyT t)"
| "visitJSDocType typeMap anyT (JSDocFunctionType ps ret) =
     FunctionTypeNode (visitJSDocParameters typeMap anyT (length ps) 0 ps)
       (case ret of Some t \<Rightarrow> t | None \<Rightarrow> anyT)"
| "visitJSDocType typeMap anyT (ArrayTypeNode elementType) =
     ArrayTypeNode (visitJSDocType typeMap anyT elementType)"
| "visitJSDocType typeMap anyT (TypeReferenceNode typeName typeArguments) =
     visitJSDocTypeReference typeMap anyT typeName typeArguments"
| "visitJSDocType typeMap anyT (JSDocTypeLiteral tags) =
     TypeLiteralNode
       (case tags of
          None \<Rightarrow> []
        | Some ts \<Rightarrow> map (visitJSDocPropertyLikeTag typeMap anyT) ts)"
| "visitJSDocType typeMap anyT (KeywordTypeNode k) = KeywordTypeNode k"
| "visitJSDocType typeMap anyT (UnionTypeNode ts) = UnionTypeNode ts"
| "visitJSDocType typeMap anyT NullLiteralTypeNode = NullLiteralTypeNode"
| "visitJSDocType typeMap anyT (TypeLiteralNode ms) = TypeLiteralNode ms"
| "visitJSDocType typeMap anyT (FunctionTypeNode ps t) = FunctionTypeNode ps t"
| "visitJSDocType typeMap anyT (OtherTypeNode s) = OtherTypeNode s"
| "visitJSDocTypeReference typeMap anyT (QualifiedName left right) typeArguments =
     createTypeReferenceNode (QualifiedName left right) typeArguments"
| "visitJSDocTypeReference typeMap anyT (Identifier text0) typeArguments =
     (if isJSDocIndexSignature (TypeReferenceNode (Identifier text0) typeArguments)
      then (case typeArguments of
              Some (k # v # _) \<Rightarrow> visitJSDocIndexSignature k v
            | _ \<Rightarrow> TypeReferenceNode (Identifier text0) typeArguments)
      else
        (let (text, acceptsTypeParameters) = resolveTypeName typeMap text0 in
         case primitiveKeywordNode text of
           Some primitive \<Rightarrow> primitive
         | None \<Rightarrow>
             if (text = ''Array'' \<or> text = ''Promise'') \<and> typeArguments = None
             then createTypeReferenceNode (Identifier text) (Some [anyT])
             else createTypeReferenceNode (Identifier text)
                    (case typeArguments of
                       None \<Rightarrow> None
                     | Some as \<Rightarrow>
                         if acceptsTypeParameters
                         then Some (map (\<lambda>arg. normalizeArg (visitJSDocType typeMap anyT arg)) as)
                         else None)))"
| "visitJSDocParameters typeMap anyT n i [] = []"
| "visitJSDocParameters typeMap anyT n i (p # ps) =
     visitJSDocParameter typeMap anyT n i p # visitJSDocParameters typeMap anyT n (Suc i) ps"
| "visitJSDocParameter typeMap anyT n i (ParameterDeclaration ms ddd nm q ty ini) =
     (case ty of
        None \<Rightarrow> ParameterDeclaration ms ddd nm q ty ini
      | Some t \<Rightarrow>
          (let isRest = ((case t of JSDocVariadicType _ \<Rightarrow> True | _ \<Rightarrow> False) \<and> Suc i = n);
               name' = (case nm of
                          Some b \<Rightarrow> b
                        | None \<Rightarrow> BindingIdentifier synthetic
                            (if isRest then ''rest'' else ''arg'' @ showNat i));
               dotdotdot = (if isRest then True else ddd)
           in ParameterDeclaration ms dotdotdot (Some name') q
                (Some (visitJSDocType typeMap anyT t)) ini))"
| "visitJSDocPropertyLikeTag typeMap anyT (JSDocPropertyLikeTag nm te br) =
     (let optionalType = False;
          ty = (case te of Some t \<Rightarrow> visitJSDocType typeMap anyT t | None \<Rightarrow> anyT)
      in PropertySignature (propertyTagName nm) (br \<or> optionalType) ty)"

section \<open>The jsdoc plugin: parameters and return types\<close>

text \<open>What the plugin reads of a function-like declaration: its parameters, its return
  type, the tags of its documentation comment (\<^verbatim>\<open>ts.getJSDocTags\<close>), the type of its
  return tag (\<^verbatim>\<open>ts.getJSDocReturnType\<close>), its syntax kind, its modifiers (decorators
  among them), where its name starts (when it has a name), whether its first token is an
  opening parenthesis, and whether it stands in a JavaScript file.  A parameter tag has a
  name (an identifier, or a qualified name for a dotted tag), the type of its type
  expression, and the bracket flag.\<close>

datatype JSDocParameterTag =
  JSDocParameterTag (tagName: "EntityName option") (tagTypeExpression: "TypeNode option")
    (isBracketed: bool)

datatype JSDocTag =
    ParameterTag JSDocParameterTag
  | PublicTag | PrivateTag | ProtectedTag | ReadonlyTag | OverrideTag
  | OtherTag string

datatype ModifierLike = Modifier ModifierKind | Decorator

datatype FunctionLikeKind =
    MethodSignature | CallSignature | JSDocSignature | ConstructSignature
  | IndexSignatureKind | FunctionType | JSDocFunctionTypeKind | ConstructorType
  | FunctionDeclaration | MethodDeclaration | Constructor | GetAccessor | SetAccessor
  | FunctionExpression | ArrowFunction

datatype SignatureDeclaration =
  SignatureDeclaration (parameters: "ParameterDeclaration list")
    (returnType: "TypeNode option") (jsDocTags: "JSDocTag list")
    (jsDocReturnType: "TypeNode option") (nodeKind: FunctionLikeKind)
    (nodeModifiers: "ModifierLike list option") (nameStart: "int option")
    (firstTokenIsOpenParen: bool) (inJSFile: bool)

datatype error = TypeError | MalformedOverlap

fun parameterTags :: "JSDocTag list \<Rightarrow> JSDocParameterTag list" where
  "parameterTags [] = []"
| "parameterTags (ParameterTag t # ts) = t # parameterTags ts"
| "parameterTags (_ # ts) = parameterTags ts"

definition hasJSDocParameterTags :: "SignatureDeclaration \<Rightarrow> bool" where
  "hasJSDocParameterTags fn = (parameterTags (jsDocTags fn) \<noteq> [])"

fun isJSDocOptionalType :: "TypeNode \<Rightarrow> bool" where
  "isJSDocOptionalType (JSDocOptionalType _) = True"
| "isJSDocOptionalType _ = False"

text \<open>The text of a tag's name when it has one, and the tests of \<open>buildNestedType\<close> on
  it.\<close>

definition tagNameStartsWith :: "JSDocParameterTag \<Rightarrow> string \<Rightarrow> bool" where
  "tagNameStartsWith t p =
     (case tagName t of None \<Rightarrow> False | Some n \<Rightarrow> startsWith (getEntityNameText n) p)"

definition isChildTag :: "string \<Rightarrow> JSDocParameterTag \<Rightarrow> bool" where
  "isChildTag prefix tag =
     (case tagName tag of
        None \<Rightarrow> False
      | Some n \<Rightarrow>
          (let tagName = getEntityNameText n in
           if \<not> startsWith tagName (prefix @ ''.'') then False
           else (let remainder = substring tagName (length prefix + 1)
                 in \<not> includesChar remainder CHR ''.'')))"

definition childPropertyName :: "string \<Rightarrow> JSDocParameterTag \<Rightarrow> string" where
  "childPropertyName prefix tag =
     (case tagName tag of
        None \<Rightarrow> []
      | Some n \<Rightarrow> substring (getEntityNameText n) (length prefix + 1))"

definition hasNestedChildren :: "string \<Rightarrow> JSDocParameterTag list \<Rightarrow> bool" where
  "hasNestedChildren fullPropertyPath allTags =
     list_ex (\<lambda>t. tagNameStartsWith t (fullPropertyPath @ ''.'')) allTags"

text \<open>The type of a child tag that has no children of its own.\<close>

definition leafPropertyType :: "TypeMap \<Rightarrow> TypeNode \<Rightarrow> JSDocParameterTag \<Rightarrow> TypeNode" where
  "leafPropertyType typeMap anyT tag =
     (case tagTypeExpression tag of
        None \<Rightarrow> anyT
      | Some te \<Rightarrow>
          (let inner = (case te of JSDocOptionalType t \<Rightarrow> t | _ \<Rightarrow> te);
               visited = visitJSDocType typeMap anyT inner
           in case visited of
                TypeReferenceNode (Identifier text) _ \<Rightarrow>
                  (case primitiveKeywordNode text of
                     Some normalized \<Rightarrow> normalized
                   | None \<Rightarrow>
                       (case primitiveKeywordNode (toLowerCase text) of
                          Some normalized \<Rightarrow> normalized
                        | None \<Rightarrow> visited))
              | _ \<Rightarrow> visited))"

definition tagIsOptional :: "JSDocParameterTag \<Rightarrow> bool" where
  "tagIsOptional tag =
     (isBracketed tag \<or>
      (case tagTypeExpression tag of None \<Rightarrow> False | Some te \<Rightarrow> isJSDocOptionalType te))"

definition longestTagName :: "JSDocParameterTag list \<Rightarrow> nat" where
  "longestTagName allTags =
     fold max
       (map (\<lambda>t. case tagName t of None \<Rightarrow> 0 | Some n \<Rightarrow> length (getEntityNameText n)) allTags) 0"

function buildNestedType ::
  "TypeMap \<Rightarrow> TypeNode \<Rightarrow> string \<Rightarrow> JSDocParameterTag list \<Rightarrow> TypeNode"
where
  "buildNestedType typeMap anyT prefix allTags =
     TypeLiteralNode
       (map (\<lambda>tag.
               PropertySignature (childPropertyName prefix tag) (tagIsOptional tag)
                 (if hasNestedChildren (prefix @ ''.'' @ childPropertyName prefix tag) allTags
                  then buildNestedType typeMap anyT
                         (prefix @ ''.'' @ childPropertyName prefix tag) allTags
                  else leafPropertyType typeMap anyT tag))
            (filter (isChildTag prefix) allTags))"
  by pat_completeness auto

text \<open>The recursion ends: a nested call is made only for a path that some tag name
  properly extends, and the path grows with every call.\<close>

lemma longestTagName_ge:
  assumes "t \<in> set allTags" and "tagName t = Some n"
  shows "length (getEntityNameText n) \<le> longestTagName allTags"
proof -
  let ?f = "\<lambda>t. case tagName t of None \<Rightarrow> 0 | Some n \<Rightarrow> length (getEntityNameText n)"
  have "longestTagName allTags = Max (set (0 # map ?f allTags))"
    unfolding longestTagName_def by (simp only: Max.set_eq_fold)
  moreover have "?f t \<in> set (0 # map ?f allTags)"
    using assms(1) by simp
  ultimately have "?f t \<le> longestTagName allTags"
    by (metis List.finite_set Max_ge)
  then show ?thesis using assms(2) by simp
qed

lemma hasNestedChildren_shorter:
  assumes "hasNestedChildren path allTags"
  shows "length path < longestTagName allTags"
proof -
  from assms obtain t where t: "t \<in> set allTags" and s: "tagNameStartsWith t (path @ ''.'')"
    unfolding hasNestedChildren_def list_ex_iff by blast
  from s obtain n where n: "tagName t = Some n"
    and st: "startsWith (getEntityNameText n) (path @ ''.'')"
    unfolding tagNameStartsWith_def by (cases "tagName t") auto
  from st have "take (Suc (length path)) (getEntityNameText n) = path @ ''.''"
    unfolding startsWith_def by simp
  then have "length (take (Suc (length path)) (getEntityNameText n)) = Suc (length path)"
    by simp
  then have "Suc (length path) \<le> length (getEntityNameText n)"
    by (simp add: min_def split: if_splits)
  with longestTagName_ge [OF t n] show ?thesis by simp
qed

termination buildNestedType
proof (relation "measure (\<lambda>(typeMap, anyT, prefix, allTags).
                   Suc (longestTagName allTags) - length prefix)")
  show "wf (measure (\<lambda>(typeMap, anyT, prefix, allTags).
              Suc (longestTagName allTags) - length prefix))"
    by simp
next
  fix typeMap :: TypeMap and anyT :: TypeNode and prefix :: string
    and allTags :: "JSDocParameterTag list" and tag :: JSDocParameterTag
  assume "hasNestedChildren (prefix @ ''.'' @ childPropertyName prefix tag) allTags"
  then have "length (prefix @ ''.'' @ childPropertyName prefix tag) < longestTagName allTags"
    by (rule hasNestedChildren_shorter)
  then show "((typeMap, anyT, prefix @ ''.'' @ childPropertyName prefix tag, allTags),
              (typeMap, anyT, prefix, allTags))
      \<in> measure (\<lambda>(typeMap, anyT, prefix, allTags).
            Suc (longestTagName allTags) - length prefix)"
    by simp
qed

declare buildNestedType.simps [simp del]

text \<open>\<open>visitParameters\<close>, one parameter at a time.  A parameter that has a type is
  returned as it is.  Reading the kind of a missing name throws.\<close>

definition isDottedTag :: "JSDocParameterTag \<Rightarrow> bool" where
  "isDottedTag t =
     (case tagName t of None \<Rightarrow> False | Some n \<Rightarrow> includesChar (getEntityNameText n) CHR ''.'')"

definition isDirectTag :: "string \<Rightarrow> JSDocParameterTag \<Rightarrow> bool" where
  "isDirectTag name t =
     (case tagName t of
        Some (Identifier text) \<Rightarrow> text = name \<and> tagTypeExpression t \<noteq> None
      | _ \<Rightarrow> False)"

definition isNestedTag :: "string \<Rightarrow> JSDocParameterTag \<Rightarrow> bool" where
  "isNestedTag name t =
     (case tagName t of
        Some (Identifier text) \<Rightarrow> startsWith text (name @ ''.'')
      | _ \<Rightarrow> False)"

definition withType ::
  "ParameterDeclaration \<Rightarrow> bool \<Rightarrow> TypeNode \<Rightarrow> ParameterDeclaration" where
  "withType param question ty =
     ParameterDeclaration (paramModifiers param) (dotDotDotToken param) (paramName param)
       question (Some ty) (paramInitializer param)"

definition visitParameter ::
  "TypeMap \<Rightarrow> TypeNode \<Rightarrow> JSDocParameterTag list \<Rightarrow> ParameterDeclaration
     \<Rightarrow> error + ParameterDeclaration" where
  "visitParameter typeMap anyT allParamTags param =
     (if paramType param \<noteq> None then Inr param
      else case paramName param of
        None \<Rightarrow> Inl TypeError
      | Some (ObjectBindingPattern _) \<Rightarrow>
          (case find isDottedTag allParamTags of
             Some rootTag \<Rightarrow>
               (case tagName rootTag of
                  Some n \<Rightarrow>
                    (let rootName = splitFirst CHR ''.'' (getEntityNameText n)
                     in Inr (withType param (questionToken param)
                          (buildNestedType typeMap anyT rootName allParamTags)))
                | None \<Rightarrow>
                    Inr (withType param (questionToken param) (KeywordTypeNode ObjectKeyword)))
           | None \<Rightarrow>
               Inr (withType param (questionToken param) (KeywordTypeNode ObjectKeyword)))
      | Some (ArrayBindingPattern _) \<Rightarrow> Inr param
      | Some (BindingIdentifier _ name) \<Rightarrow>
          if name = [] then Inr param
          else
            (let directTag = find (isDirectTag name) allParamTags;
                 nestedTags = filter (isNestedTag name) allParamTags
             in if nestedTags \<noteq> []
                then Inr (withType param (questionToken param)
                       (buildNestedType typeMap anyT name allParamTags))
                else case directTag of
                  None \<Rightarrow> Inr param
                | Some tag \<Rightarrow>
                    (case tagTypeExpression tag of
                       None \<Rightarrow> Inr param
                     | Some typeNode \<Rightarrow>
                         Inr (withType param
                           (if paramInitializer param = None \<and>
                               (isBracketed tag \<or> isJSDocOptionalType typeNode)
                            then True else questionToken param)
                           (visitJSDocType typeMap anyT typeNode)))))"

fun mapResult :: "('a \<Rightarrow> error + 'b) \<Rightarrow> 'a list \<Rightarrow> error + 'b list" where
  "mapResult f [] = Inr []"
| "mapResult f (x # xs) =
     (case f x of
        Inl e \<Rightarrow> Inl e
      | Inr y \<Rightarrow> (case mapResult f xs of Inl e \<Rightarrow> Inl e | Inr ys \<Rightarrow> Inr (y # ys)))"

definition visitParameters ::
  "TypeMap \<Rightarrow> TypeNode \<Rightarrow> SignatureDeclaration \<Rightarrow> error + ParameterDeclaration list" where
  "visitParameters typeMap anyT fn =
     (if \<not> hasJSDocParameterTags fn then Inr (parameters fn)
      else mapResult (visitParameter typeMap anyT (parameterTags (jsDocTags fn)))
             (parameters fn))"

definition visitReturnType ::
  "TypeMap \<Rightarrow> TypeNode \<Rightarrow> SignatureDeclaration \<Rightarrow> TypeNode option" where
  "visitReturnType typeMap anyT functionDeclaration =
     (case returnType functionDeclaration of
        Some t \<Rightarrow> Some t
      | None \<Rightarrow>
          (case jsDocReturnType functionDeclaration of
             None \<Rightarrow> returnType functionDeclaration
           | Some returnTypeNode \<Rightarrow> Some (visitJSDocType typeMap anyT returnTypeNode)))"

subsection \<open>Modifiers\<close>

text \<open>
  The functions of the TypeScript library that \<open>visitFunctionLike\<close> and
  \<open>modifiersFromJSDoc\<close> call, after the library's code (version 5.9.3).
  \<^verbatim>\<open>ts.canHaveModifiers\<close> goes by the kind.  The property \<open>modifiers\<close> exists on the nodes
  of every function-like kind but call signatures, construct signatures and the two
  documentary kinds (\<^verbatim>\<open>'modifiers' in node\<close>).  \<^verbatim>\<open>ts.getModifiers\<close> returns nothing
  when no modifier of the node is a keyword, and otherwise the modifiers without the
  decorators: the node's own array when it holds no decorator, a new array when it does.
  \<^verbatim>\<open>ts.getCombinedModifierFlags\<close> collects the keywords of the modifiers and, in a
  JavaScript file, those of the documentary tags.  \<^verbatim>\<open>createModifiersFromModifierFlags\<close>
  makes the modifiers of the flags in a fixed order, or nothing when there is none.

  A value that may be the node's own array is a pair: the value, and whether it is
  identical (\<^verbatim>\<open>===\<close>) to \<^verbatim>\<open>node.modifiers\<close>.
\<close>

definition canHaveModifiers :: "FunctionLikeKind \<Rightarrow> bool" where
  "canHaveModifiers k =
     (k \<in> set [MethodSignature, MethodDeclaration, Constructor, GetAccessor, SetAccessor,
                IndexSignatureKind, ConstructorType, FunctionExpression, ArrowFunction,
                FunctionDeclaration])"

definition hasModifiersProperty :: "FunctionLikeKind \<Rightarrow> bool" where
  "hasModifiersProperty k =
     (k \<notin> set [CallSignature, ConstructSignature, JSDocFunctionTypeKind, JSDocSignature])"

fun modifierKinds :: "ModifierLike list \<Rightarrow> ModifierKind list" where
  "modifierKinds [] = []"
| "modifierKinds (Modifier k # ms) = k # modifierKinds ms"
| "modifierKinds (Decorator # ms) = modifierKinds ms"

definition getModifiers :: "SignatureDeclaration \<Rightarrow> ModifierLike list option \<times> bool" where
  "getModifiers node =
     (case nodeModifiers node of
        None \<Rightarrow> (None, True)
      | Some ms \<Rightarrow>
          if modifierKinds ms = [] then (None, False)
          else (Some (map Modifier (modifierKinds ms)), Decorator \<notin> set ms))"

fun jsDocModifierKinds :: "JSDocTag list \<Rightarrow> ModifierKind list" where
  "jsDocModifierKinds [] = []"
| "jsDocModifierKinds (PublicTag # ts) = PublicKeyword # jsDocModifierKinds ts"
| "jsDocModifierKinds (PrivateTag # ts) = PrivateKeyword # jsDocModifierKinds ts"
| "jsDocModifierKinds (ProtectedTag # ts) = ProtectedKeyword # jsDocModifierKinds ts"
| "jsDocModifierKinds (ReadonlyTag # ts) = ReadonlyKeyword # jsDocModifierKinds ts"
| "jsDocModifierKinds (OverrideTag # ts) = OverrideKeyword # jsDocModifierKinds ts"
| "jsDocModifierKinds (_ # ts) = jsDocModifierKinds ts"

definition getCombinedModifierFlags :: "SignatureDeclaration \<Rightarrow> ModifierKind list" where
  "getCombinedModifierFlags node =
     (if canHaveModifiers (nodeKind node)
      then (case nodeModifiers node of None \<Rightarrow> [] | Some ms \<Rightarrow> modifierKinds ms) else [])
     @ (if inJSFile node then jsDocModifierKinds (jsDocTags node) else [])"

definition createModifiersFromModifierFlags :: "ModifierKind list \<Rightarrow> ModifierLike list option" where
  "createModifiersFromModifierFlags flags =
     (let result =
        filter (\<lambda>k. k \<in> set flags)
          [ExportKeyword, DeclareKeyword, DefaultKeyword, ConstKeyword, PublicKeyword,
           PrivateKeyword, ProtectedKeyword, AbstractKeyword, StaticKeyword, OverrideKeyword,
           ReadonlyKeyword, AccessorKeyword, AsyncKeyword, InKeyword, OutKeyword]
      in if result = [] then None else Some (map Modifier result))"

text \<open>\<open>modifiersFromJSDoc\<close>: the node's own modifiers when an accessibility keyword is
  among the flags or no accessibility tag is there, otherwise new modifiers with the
  keyword of the first of the tags private, protected, public that the comment has.\<close>

definition accessibilityMask :: "ModifierKind list" where
  "accessibilityMask = [PrivateKeyword, ProtectedKeyword, PublicKeyword]"

definition modifiersFromJSDoc :: "SignatureDeclaration \<Rightarrow> ModifierLike list option \<times> bool" where
  "modifiersFromJSDoc methodDeclaration =
     (let modifierFlags = getCombinedModifierFlags methodDeclaration;
          created = (\<lambda>k. (createModifiersFromModifierFlags (modifierFlags @ [k]), False))
      in if list_ex (\<lambda>k. k \<in> set accessibilityMask) modifierFlags
         then (nodeModifiers methodDeclaration, True)
         else if PrivateTag \<in> set (jsDocTags methodDeclaration) then created PrivateKeyword
         else if ProtectedTag \<in> set (jsDocTags methodDeclaration) then created ProtectedKeyword
         else if PublicTag \<in> set (jsDocTags methodDeclaration) then created PublicKeyword
         else (nodeModifiers methodDeclaration, True))"

subsection \<open>The update of one declaration\<close>

text \<open>
  The calls \<open>visitFunctionLike\<close> makes on the update tracker, whose class
  (utils/update) is not among the sources: \<^verbatim>\<open>replaceNodes(old, new, addParens)\<close>, with
  \<open>addParens\<close> absent for modifiers, \<^verbatim>\<open>insertNodes(pos, new)\<close> and
  \<^verbatim>\<open>addReturnAnnotation(node, type)\<close> for the declaration itself.
\<close>

datatype NodeArray = Modifiers "ModifierLike list" | Parameters "ParameterDeclaration list"

datatype TrackerCall =
    ReplaceNodes NodeArray NodeArray "bool option"
  | InsertNodes int NodeArray
  | AddReturnAnnotation TypeNode

text \<open>
  \<open>visitFunctionLike\<close>.  \<open>visitParameters\<close> returns the node's own parameter array only
  when the declaration has no parameter tag; with a tag it returns the array that
  \<^verbatim>\<open>map\<close> made, which is never identical to \<^verbatim>\<open>node.parameters\<close>.  The return type is
  identical to \<^verbatim>\<open>node.type\<close> unless it is the visited type of the return tag.  When the
  three are identical to the node's own, nothing is done.  Otherwise the modifiers, if
  any, are replaced or inserted before the name (reading the start of a missing name
  throws), the parameters are replaced, and a return type, if any, is handed to
  \<^verbatim>\<open>addReturnAnnotation\<close>.
\<close>

definition visitFunctionLike ::
  "bool \<Rightarrow> TypeMap \<Rightarrow> TypeNode \<Rightarrow> SignatureDeclaration \<Rightarrow> bool \<Rightarrow> error + TrackerCall list" where
  "visitFunctionLike annotateReturns typeMap anyT node insideClass =
     (let (modifiers, sameModifiers) =
            (if nodeKind node = MethodDeclaration \<and> insideClass then modifiersFromJSDoc node
             else if canHaveModifiers (nodeKind node) then getModifiers node
             else (None, nodeModifiers node = None))
      in case visitParameters typeMap anyT node of
           Inl e \<Rightarrow> Inl e
         | Inr parameters' \<Rightarrow>
             (let sameParameters = (\<not> hasJSDocParameterTags node);
                  returnType' = (if annotateReturns then visitReturnType typeMap anyT node
                                 else returnType node);
                  sameReturnType = (if annotateReturns \<and> returnType node = None
                                    then jsDocReturnType node = None else True)
              in if (if hasModifiersProperty (nodeKind node) then sameModifiers
                     else modifiers = None)
                    \<and> sameParameters \<and> sameReturnType
                 then Inr []
                 else
                   (let addParens = (nodeKind node = ArrowFunction
                                     \<and> \<not> firstTokenIsOpenParen node);
                        rest = [ReplaceNodes (Parameters (parameters node))
                                  (Parameters parameters') (Some addParens)]
                               @ (case returnType' of
                                    None \<Rightarrow> []
                                  | Some newType \<Rightarrow> [AddReturnAnnotation newType])
                    in case modifiers of
                         None \<Rightarrow> Inr rest
                       | Some newModifiers \<Rightarrow>
                           (case (if hasModifiersProperty (nodeKind node)
                                  then nodeModifiers node else None) of
                              Some old \<Rightarrow>
                                Inr (ReplaceNodes (Modifiers old) (Modifiers newModifiers) None
                                     # rest)
                            | None \<Rightarrow>
                                (case nameStart node of
                                   None \<Rightarrow> Inl TypeError
                                 | Some start \<Rightarrow>
                                     Inr (InsertNodes start (Modifiers newModifiers) # rest))))))"

text \<open>Every parameter of a parsed function-like declaration has a name.\<close>

definition hasName :: "ParameterDeclaration \<Rightarrow> bool" where
  "hasName p = (paramName p \<noteq> None)"

subsection \<open>Dotted tags as paths\<close>

text \<open>
  The spec speaks of dotted tag groups by segments.  After its section 4.3 a nested
  object type is built one level per dot-segment, a property with children produces a
  nested type literal, and a property with no children and no declared type defaults to
  the configured unknown alias; after its section 4.5 a destructured parameter consults
  the first dotted tag whose root matches.  The definitions of this subsection, named
  \<open>spec...\<close>, follow these words, to be compared with \<open>buildNestedType\<close> and
  \<open>visitParameter\<close>, which work on the text of the names.

  \<^verbatim>\<open>s.split(c)\<close> and \<^verbatim>\<open>segments.join(c)\<close> for a one-character \<^verbatim>\<open>c\<close>; the path of a tag is
  its name split at the dots, empty for a tag without a name.
\<close>

fun splitOn :: "char \<Rightarrow> string \<Rightarrow> string list" where
  "splitOn c [] = [[]]"
| "splitOn c (x # xs) =
     (if x = c then [] # splitOn c xs
      else (case splitOn c xs of [] \<Rightarrow> [[x]] | s # ss \<Rightarrow> (x # s) # ss))"

fun joinWith :: "char \<Rightarrow> string list \<Rightarrow> string" where
  "joinWith c [] = []"
| "joinWith c [s] = s"
| "joinWith c (s # t # ts) = s @ [c] @ joinWith c (t # ts)"

definition tagPath :: "JSDocParameterTag \<Rightarrow> string list" where
  "tagPath t = (case tagName t of None \<Rightarrow> [] | Some n \<Rightarrow> splitOn CHR ''.'' (getEntityNameText n))"

text \<open>A tag is a member of the object at \<open>path\<close> when its path is \<open>path\<close> and one more
  segment; the object at \<open>path\<close> has children when the path of some tag goes on after
  \<open>path\<close>.\<close>

definition specIsMember :: "string list \<Rightarrow> JSDocParameterTag \<Rightarrow> bool" where
  "specIsMember path tag = (tagPath tag \<noteq> [] \<and> butlast (tagPath tag) = path)"

definition specHasChildren :: "string list \<Rightarrow> JSDocParameterTag list \<Rightarrow> bool" where
  "specHasChildren path allTags =
     list_ex (\<lambda>t. length path < length (tagPath t) \<and> take (length path) (tagPath t) = path) allTags"

definition longestTagPath :: "JSDocParameterTag list \<Rightarrow> nat" where
  "longestTagPath allTags = fold max (map (\<lambda>t. length (tagPath t)) allTags) 0"

text \<open>The nested object type at \<open>path\<close>: one property for every member tag, in the order
  of the tags, named by the last segment of the tag; its type is the nested object type
  at the path of the tag when that has children, and otherwise the type of the tag as a
  leaf.\<close>

function specNestedType ::
  "TypeMap \<Rightarrow> TypeNode \<Rightarrow> string list \<Rightarrow> JSDocParameterTag list \<Rightarrow> TypeNode"
where
  "specNestedType typeMap anyT path allTags =
     TypeLiteralNode
       (map (\<lambda>tag.
               PropertySignature (last (tagPath tag)) (tagIsOptional tag)
                 (if specHasChildren (tagPath tag) allTags
                  then specNestedType typeMap anyT (tagPath tag) allTags
                  else leafPropertyType typeMap anyT tag))
            (filter (specIsMember path) allTags))"
  by pat_completeness auto

lemma longestTagPath_ge:
  assumes "t \<in> set allTags"
  shows "length (tagPath t) \<le> longestTagPath allTags"
proof -
  let ?f = "\<lambda>t. length (tagPath t)"
  have "longestTagPath allTags = Max (set (0 # map ?f allTags))"
    unfolding longestTagPath_def by (simp only: Max.set_eq_fold)
  moreover have "?f t \<in> set (0 # map ?f allTags)"
    using assms by simp
  ultimately show ?thesis
    by (metis List.finite_set Max_ge)
qed

lemma specHasChildren_shorter:
  assumes "specHasChildren path allTags"
  shows "length path < longestTagPath allTags"
proof -
  from assms obtain t where "t \<in> set allTags" "length path < length (tagPath t)"
    unfolding specHasChildren_def list_ex_iff by blast
  with longestTagPath_ge [of t allTags] show ?thesis by simp
qed

lemma specIsMember_length:
  assumes "specIsMember path tag"
  shows "length (tagPath tag) = Suc (length path)"
proof -
  from assms have "tagPath tag \<noteq> []" "butlast (tagPath tag) = path"
    by (simp_all add: specIsMember_def)
  then have "length path = length (tagPath tag) - 1" by auto
  with \<open>tagPath tag \<noteq> []\<close> show ?thesis by (cases "tagPath tag") auto
qed

termination specNestedType
proof (relation "measure (\<lambda>(typeMap, anyT, path, allTags).
                   Suc (longestTagPath allTags) - length path)")
  show "wf (measure (\<lambda>(typeMap, anyT, path, allTags).
              Suc (longestTagPath allTags) - length path))"
    by simp
next
  fix typeMap :: TypeMap and anyT :: TypeNode and path :: "string list"
    and allTags :: "JSDocParameterTag list" and tag :: JSDocParameterTag
  assume m: "tag \<in> set (filter (specIsMember path) allTags)"
    and c: "specHasChildren (tagPath tag) allTags"
  from m have "length (tagPath tag) = Suc (length path)"
    by (simp add: specIsMember_length)
  moreover from c have "length (tagPath tag) < longestTagPath allTags"
    by (rule specHasChildren_shorter)
  ultimately show "((typeMap, anyT, tagPath tag, allTags), (typeMap, anyT, path, allTags))
      \<in> measure (\<lambda>(typeMap, anyT, path, allTags).
            Suc (longestTagPath allTags) - length path)"
    by simp
qed

declare specNestedType.simps [simp del]

text \<open>The names of the parameters that are identifiers, and the parameters that are
  object patterns.  A dotted tag matches a destructured parameter when its root is not
  the name of a parameter: a tag rooted at the name of a parameter describes that
  parameter.\<close>

fun parameterNames :: "ParameterDeclaration list \<Rightarrow> string list" where
  "parameterNames [] = []"
| "parameterNames (p # ps) =
     (case paramName p of
        Some (BindingIdentifier _ n) \<Rightarrow> n # parameterNames ps
      | _ \<Rightarrow> parameterNames ps)"

definition isObjectPattern :: "ParameterDeclaration \<Rightarrow> bool" where
  "isObjectPattern p =
     (case paramName p of Some (ObjectBindingPattern _) \<Rightarrow> True | _ \<Rightarrow> False)"

definition specMatches :: "SignatureDeclaration \<Rightarrow> JSDocParameterTag \<Rightarrow> bool" where
  "specMatches fn t =
     (1 < length (tagPath t) \<and> hd (tagPath t) \<notin> set (parameterNames (parameters fn)))"

section \<open>Edit records and the patch engine\<close>

text \<open>An edit record: \<open>Insert index text\<close>, \<open>Delete index length\<close> or
  \<open>Replace index length text\<close>, with offsets into the original text.\<close>

datatype SourceTextUpdate =
    Insert int string
  | Delete int int
  | Replace int int string

fun updateIndex :: "SourceTextUpdate \<Rightarrow> int" where
  "updateIndex (Insert i _) = i"
| "updateIndex (Delete i _) = i"
| "updateIndex (Replace i _ _) = i"

text \<open>
  Modelled from the spec: \<^verbatim>\<open>updateSourceText\<close> (utils/updateSourceText), the patch engine
  the plugin hands its edit records to; its file is not among the sources.  After the
  spec's section 4.1: the edits are sorted by index, ascending, edits of one index staying
  in the order submitted; the original text is walked once, unedited spans are copied and
  each edit is spliced in at its offset; a delete or replace that starts inside a range
  already removed is the fatal overlap.  An insert is spliced in at its own offset: what
  follows its text is the original from that offset on.  The spec does not say what
  becomes of an insert whose offset lies inside a range that an earlier replace or delete
  has passed; with the reading taken here the original is copied again from the insert's
  offset.
\<close>

fun applyUpdates :: "string \<Rightarrow> int \<Rightarrow> SourceTextUpdate list \<Rightarrow> error + string" where
  "applyUpdates src cur [] = Inr (slice src cur (int (length src)))"
| "applyUpdates src cur (Insert i t # us) =
     (case applyUpdates src i us of
        Inl e \<Rightarrow> Inl e
      | Inr rest \<Rightarrow> Inr (slice src cur i @ t @ rest))"
| "applyUpdates src cur (Delete i n # us) =
     (if i < cur then Inl MalformedOverlap
      else case applyUpdates src (i + n) us of
        Inl e \<Rightarrow> Inl e
      | Inr rest \<Rightarrow> Inr (slice src cur i @ rest))"
| "applyUpdates src cur (Replace i n t # us) =
     (if i < cur then Inl MalformedOverlap
      else case applyUpdates src (i + n) us of
        Inl e \<Rightarrow> Inl e
      | Inr rest \<Rightarrow> Inr (slice src cur i @ t @ rest))"

definition updateSourceText :: "string \<Rightarrow> SourceTextUpdate list \<Rightarrow> error + string" where
  "updateSourceText sourceText updates = applyUpdates sourceText 0 (sort_key updateIndex updates)"

section \<open>The react-shape plugin\<close>

text \<open>The top-level statements the plugin tells apart, with the parts of each it reads or
  builds: of an import its default name and module specifier, of a variable statement its
  modifiers, the flag of its declaration list and its declarations, of an export
  declaration its named exports.\<close>

datatype NodeFlags = NoFlags | LetFlag | ConstFlag

datatype VariableDeclaration =
  VariableDeclaration (declarationRange: TextRange) (declarationName: BindingName)
    (declarationType: "TypeNode option") (declarationInitializer: "Expression option")

datatype Statement =
    ImportDeclaration TextRange "string option" Expression
  | VariableStatement TextRange "ModifierKind list" NodeFlags "VariableDeclaration list"
  | ExportAssignment TextRange Expression
  | ExportDeclaration TextRange "string list"
  | InterfaceDeclaration TextRange string
  | TypeAliasDeclaration TextRange string TypeNode
  | OtherStatement TextRange

datatype Node = StatementNode Statement | VariableDeclarationNode VariableDeclaration

datatype SourceFile = SourceFile (sourceText: string) (statements: "Statement list")

datatype Options = Options (anyAlias: "string option") (anyFunctionAlias: "string option")

text \<open>
  What the plugin takes from outside this file: the printer of the TypeScript compiler
  (\<^verbatim>\<open>printer.printNode(ts.EmitHint.Unspecified, node, sourceFile)\<close>), the function
  \<^verbatim>\<open>getTypeFromPropTypesObjectLiteral\<close> of utils/react-props, whose file is not among the
  sources, applied to the first argument of the shape call (absent when the call has
  none), and \<^verbatim>\<open>ts.sys.newLine\<close>.  They are parameters of the model.
\<close>

datatype Host =
  Host (printNode: "SourceFile \<Rightarrow> Node \<Rightarrow> string")
    (getTypeFromPropTypesObjectLiteral: "Expression option \<Rightarrow> SourceFile \<Rightarrow> Options \<Rightarrow> TypeNode")
    (newLine: string)

text \<open>\<open>printed\<close> is a printed node after \<^verbatim>\<open>.replace(/ +$/gm, '')\<close>.  Comments attached to
  nodes (\<^verbatim>\<open>ts.moveSyntheticComments\<close>) are not part of the trees of the model.\<close>

definition printed :: "Host \<Rightarrow> SourceFile \<Rightarrow> Node \<Rightarrow> string" where
  "printed host sourceFile node = stripTrailingSpaces (printNode host sourceFile node)"

fun bindingRange :: "BindingName \<Rightarrow> TextRange" where
  "bindingRange (BindingIdentifier r _) = r"
| "bindingRange (ObjectBindingPattern r) = r"
| "bindingRange (ArrayBindingPattern r) = r"

fun firstArgument :: "Expression \<Rightarrow> Expression option" where
  "firstArgument (CallExpression _ _ (a # _)) = Some a"
| "firstArgument _ = None"

fun isObjectLiteralExpression :: "Expression \<Rightarrow> bool" where
  "isObjectLiteralExpression (ObjectLiteralExpression _) = True"
| "isObjectLiteralExpression _ = False"

text \<open>\<^verbatim>\<open>path.basename\<close> for a POSIX path, and \<^verbatim>\<open>baseName.split('.')[0]\<close>.\<close>

definition basename :: "string \<Rightarrow> string" where
  "basename p =
     rev (takeWhile (\<lambda>c. c \<noteq> CHR ''/'') (dropWhile (\<lambda>c. c = CHR ''/'') (rev p)))"

definition getTypeForTheShape ::
  "Host \<Rightarrow> Expression \<Rightarrow> string \<Rightarrow> SourceFile \<Rightarrow> Options \<Rightarrow> bool \<Rightarrow> Statement" where
  "getTypeForTheShape host shapeNode shapeName sourceFile options isArrayShapeType =
     (let shapeTypeVariable =
            getTypeFromPropTypesObjectLiteral host (firstArgument shapeNode) sourceFile options
      in TypeAliasDeclaration synthetic shapeName
           (if isArrayShapeType then ArrayTypeNode shapeTypeVariable else shapeTypeVariable))"

fun isPropTypesShapeCallExpression :: "SourceFile \<Rightarrow> Expression \<Rightarrow> bool" where
  "isPropTypesShapeCallExpression sourceFile (CallExpression _ callee _) =
     regexTest rxShape (getText (sourceText sourceFile) (rangeOf callee))"
| "isPropTypesShapeCallExpression sourceFile _ = False"

text \<open>\<open>isPropTypesArrayOfShapes\<close> reads the kind of the first argument without looking at
  the number of arguments: on a call without arguments whose callee matches
  \<^verbatim>\<open>/arrayOf/\<close> it throws.\<close>

fun isPropTypesArrayOfShapes :: "SourceFile \<Rightarrow> Expression \<Rightarrow> error + bool" where
  "isPropTypesArrayOfShapes sourceFile (CallExpression _ callee args) =
     (if \<not> regexTest rxArrayOf (getText (sourceText sourceFile) (rangeOf callee)) then Inr False
      else case args of
        [] \<Rightarrow> Inl TypeError
      | CallExpression r c as # _ \<Rightarrow>
          Inr (isPropTypesShapeCallExpression sourceFile (CallExpression r c as))
      | _ # _ \<Rightarrow> Inr False)"
| "isPropTypesArrayOfShapes sourceFile _ = Inr False"

definition getPropTypesImportNode :: Statement where
  "getPropTypesImportNode =
     ImportDeclaration synthetic (Some ''PropTypes'') (StringLiteral synthetic ''prop-types'')"

definition getShapeTypeNode :: "string \<Rightarrow> TypeNode" where
  "getShapeTypeNode shapeName =
     (let propTypesRequireable =
            createTypeReferenceNode (QualifiedName (Identifier ''PropTypes'') ''Requireable'')
              (Some [createTypeReferenceNode (Identifier shapeName) None]);
          reactValidatorsValidator =
            createTypeReferenceNode (Identifier ''Validator'')
              (Some [createTypeReferenceNode (Identifier shapeName) None])
      in UnionTypeNode [propTypesRequireable, reactValidatorsValidator])"

text \<open>The two variables the closures of \<open>run\<close> change: the flag
  \<open>shouldAddPropTypesImport\<close> and the list \<open>updates\<close>.\<close>

datatype RunState = RunState (shouldAddPropTypesImport: bool) (updates: "SourceTextUpdate list")

definition push :: "SourceTextUpdate \<Rightarrow> RunState \<Rightarrow> RunState" where
  "push u st = RunState (shouldAddPropTypesImport st) (updates st @ [u])"

definition insertPropTypesRequireableNode :: "Host \<Rightarrow> SourceFile \<Rightarrow> RunState \<Rightarrow> RunState" where
  "insertPropTypesRequireableNode host sourceFile st =
     (if shouldAddPropTypesImport st
      then RunState False
             (updates st @
              [Insert 0 (printed host sourceFile (StatementNode getPropTypesImportNode)
                         @ [CHR 0x0A])])
      else st)"

definition EXPORT_KEYWOARD :: string where
  "EXPORT_KEYWOARD = ''export''"

definition splitVariableExport ::
  "Host \<Rightarrow> SourceFile \<Rightarrow> TextRange \<Rightarrow> string \<Rightarrow> RunState \<Rightarrow> RunState" where
  "splitVariableExport host sourceFile node shapeName st =
     (let posOfExportKeyword = indexOf (getFullText (sourceText sourceFile) node) EXPORT_KEYWOARD;
          newExport = ExportDeclaration synthetic [shapeName]
      in push (Insert (endPos node)
                 ([CHR 0x0A] @ printed host sourceFile (StatementNode newExport)))
           (push (Delete (pos node + posOfExportKeyword) (int (length EXPORT_KEYWOARD) + 1)) st))"

text \<open>The names of the interfaces and type aliases among the statements.\<close>

fun typesAndInterfaces :: "Statement list \<Rightarrow> string list" where
  "typesAndInterfaces [] = []"
| "typesAndInterfaces (InterfaceDeclaration _ n # ss) = n # typesAndInterfaces ss"
| "typesAndInterfaces (TypeAliasDeclaration _ n _ # ss) = n # typesAndInterfaces ss"
| "typesAndInterfaces (_ # ss) = typesAndInterfaces ss"

fun importDeclarations :: "Statement list \<Rightarrow> (TextRange \<times> Expression) list" where
  "importDeclarations [] = []"
| "importDeclarations (ImportDeclaration r _ m # ss) = (r, m) # importDeclarations ss"
| "importDeclarations (_ # ss) = importDeclarations ss"

definition importMatches ::
  "atom list list \<Rightarrow> SourceFile \<Rightarrow> (TextRange \<times> Expression) \<Rightarrow> bool" where
  "importMatches rx sourceFile x =
     regexTest rx (getText (sourceText sourceFile) (rangeOf (snd x)))"

text \<open>The first branch of the loop body: \<^verbatim>\<open>const shapeName = PropTypes.shape({...})\<close>.\<close>

definition shapeVariable ::
  "Host \<Rightarrow> SourceFile \<Rightarrow> Options \<Rightarrow> TextRange \<Rightarrow> bool \<Rightarrow> VariableDeclaration
     \<Rightarrow> Expression \<Rightarrow> RunState \<Rightarrow> RunState" where
  "shapeVariable host sourceFile options node exportModifier variableDeclaration shapeNode st0 =
     (let st1 = insertPropTypesRequireableNode host sourceFile st0;
          shapeName = getText (sourceText sourceFile)
                        (bindingRange (declarationName variableDeclaration));
          st2 = (if shapeName \<in> set (typesAndInterfaces (statements sourceFile)) then st1
                 else push (Insert (pos node)
                        ([CHR 0x0A, CHR 0x0A] @
                         printed host sourceFile
                           (StatementNode
                              (getTypeForTheShape host shapeNode shapeName sourceFile options
                                 False))))
                      st1);
          updatedVariableDeclaration =
            VariableDeclaration (declarationRange variableDeclaration)
              (declarationName variableDeclaration) (Some (getShapeTypeNode shapeName))
              (declarationInitializer variableDeclaration);
          index = pos (declarationRange variableDeclaration) + 1;
          len = endPos (declarationRange variableDeclaration) - index;
          st3 = push (Replace index len
                        (printed host sourceFile
                           (VariableDeclarationNode updatedVariableDeclaration))) st2
      in if exportModifier then splitVariableExport host sourceFile node shapeName st3 else st3)"

text \<open>The second branch: \<^verbatim>\<open>const shapeName = Types.arrayOf(Shape(...))\<close>; the shape node is
  the first argument of the initializer.\<close>

definition arrayOfShapesVariable ::
  "Host \<Rightarrow> SourceFile \<Rightarrow> Options \<Rightarrow> TextRange \<Rightarrow> bool \<Rightarrow> VariableDeclaration
     \<Rightarrow> Expression \<Rightarrow> RunState \<Rightarrow> RunState" where
  "arrayOfShapesVariable host sourceFile options node exportModifier variableDeclaration
       shapeNode st0 =
     (let st1 = insertPropTypesRequireableNode host sourceFile st0;
          shapeName = getText (sourceText sourceFile)
                        (bindingRange (declarationName variableDeclaration));
          st2 = push (Insert (pos node)
                        ([CHR 0x0A, CHR 0x0A] @
                         printed host sourceFile
                           (StatementNode
                              (getTypeForTheShape host shapeNode shapeName sourceFile options
                                 True))))
                  st1
      in if exportModifier then splitVariableExport host sourceFile node shapeName st2 else st2)"

text \<open>The third branch: \<^verbatim>\<open>export default PropTypes.shape({...})\<close>.  The replace record is
  pushed with \<^verbatim>\<open>index: node.pos, length: node.end\<close>.\<close>

definition defaultExportShape ::
  "Host \<Rightarrow> SourceFile \<Rightarrow> Options \<Rightarrow> string \<Rightarrow> int \<Rightarrow> TextRange \<Rightarrow> Expression
     \<Rightarrow> RunState \<Rightarrow> RunState" where
  "defaultExportShape host sourceFile options baseName lastImportEnd node shapeNode st0 =
     (let st1 = insertPropTypesRequireableNode host sourceFile st0;
          shapeName = splitFirst CHR ''.'' baseName;
          st2 = push (Insert lastImportEnd
                        ([CHR 0x0A, CHR 0x0A] @
                         printed host sourceFile
                           (StatementNode
                              (getTypeForTheShape host shapeNode shapeName sourceFile options
                                 False))))
                  st1;
          st3 = push (Replace (pos node) (endPos node)
                        (newLine host @
                         printed host sourceFile
                           (StatementNode
                              (VariableStatement synthetic [] ConstFlag
                                 [VariableDeclaration synthetic
                                    (BindingIdentifier synthetic shapeName)
                                    (Some (getShapeTypeNode shapeName)) (Some shapeNode)]))))
                  st2;
          exportShapeExpression =
            newLine host @
            printed host sourceFile
              (StatementNode
                 (ExportAssignment synthetic (IdentifierExpression synthetic shapeName)))
      in push (Insert (endPos node) exportShapeExpression) st3)"

text \<open>The body of the loop over the top-level statements.  Of a variable statement only
  \<^verbatim>\<open>node.declarationList.declarations[0]\<close> is read.  In the third branch the kind of
  \<^verbatim>\<open>node.expression.arguments[0]\<close> is read whatever the number of arguments, which throws
  when there is none.\<close>

fun visitStatement ::
  "Host \<Rightarrow> SourceFile \<Rightarrow> Options \<Rightarrow> string \<Rightarrow> Statement \<Rightarrow> RunState \<Rightarrow> error + RunState"
where
  "visitStatement host sourceFile options baseName (VariableStatement node mods flags decls) st =
     (case decls of
        [] \<Rightarrow> Inr st
      | variableDeclaration # _ \<Rightarrow>
          (case declarationInitializer variableDeclaration of
             None \<Rightarrow> Inr st
           | Some init \<Rightarrow>
               if declarationType variableDeclaration \<noteq> None then Inr st
               else
                 (let exportModifier = (ExportKeyword \<in> set mods) in
                  case init of
                    CallExpression _ _ args \<Rightarrow>
                      (let st1 =
                         (case args of
                            [] \<Rightarrow> st
                          | a # _ \<Rightarrow>
                              if isObjectLiteralExpression a \<and>
                                 isPropTypesShapeCallExpression sourceFile init
                              then shapeVariable host sourceFile options node exportModifier
                                     variableDeclaration init st
                              else st)
                       in case isPropTypesArrayOfShapes sourceFile init of
                            Inl e \<Rightarrow> Inl e
                          | Inr False \<Rightarrow> Inr st1
                          | Inr True \<Rightarrow>
                              (case args of
                                 [] \<Rightarrow> Inl TypeError
                               | shapeNode # _ \<Rightarrow>
                                   Inr (arrayOfShapesVariable host sourceFile options node
                                          exportModifier variableDeclaration shapeNode st1)))
                  | _ \<Rightarrow> Inr st)))"
| "visitStatement host sourceFile options baseName (ExportAssignment node expression) st =
     (case expression of
        CallExpression _ _ args \<Rightarrow>
          (case args of
             [] \<Rightarrow> Inl TypeError
           | a # _ \<Rightarrow>
               if isObjectLiteralExpression a \<and>
                  isPropTypesShapeCallExpression sourceFile expression
               then (case importDeclarations (statements sourceFile) of
                       [] \<Rightarrow> Inl TypeError
                     | i # is \<Rightarrow>
                         Inr (defaultExportShape host sourceFile options baseName
                                (endPos (fst (last (i # is)))) node expression st))
               else Inr st)
      | _ \<Rightarrow> Inr st)"
| "visitStatement host sourceFile options baseName _ st = Inr st"

fun visitStatements ::
  "Host \<Rightarrow> SourceFile \<Rightarrow> Options \<Rightarrow> string \<Rightarrow> Statement list \<Rightarrow> RunState
     \<Rightarrow> error + RunState"
where
  "visitStatements host sourceFile options baseName [] st = Inr st"
| "visitStatements host sourceFile options baseName (node # nodes) st =
     (case visitStatement host sourceFile options baseName node st of
        Inl e \<Rightarrow> Inl e
      | Inr st' \<Rightarrow> visitStatements host sourceFile options baseName nodes st')"

text \<open>The edit records \<open>run\<close> has collected when its loop ends; \<open>None\<close> when it returned
  before the loop because no import matches \<^verbatim>\<open>/prop-types|react-validators/\<close>.\<close>

definition runUpdates ::
  "Host \<Rightarrow> string \<Rightarrow> SourceFile \<Rightarrow> Options \<Rightarrow> error + SourceTextUpdate list option" where
  "runUpdates host fileName sourceFile options =
     (let baseName = basename fileName;
          imports = importDeclarations (statements sourceFile)
      in if \<not> list_ex (importMatches rxValidationImport sourceFile) imports then Inr None
         else
           (let shouldAdd = (\<not> list_ex (importMatches rxPropTypes sourceFile) imports)
            in case visitStatements host sourceFile options baseName (statements sourceFile)
                      (RunState shouldAdd []) of
                 Inl e \<Rightarrow> Inl e
               | Inr st \<Rightarrow> Inr (Some (updates st))))"

text \<open>\<open>run\<close>: \<open>Inr None\<close> is the \<^verbatim>\<open>undefined\<close> it returns for a file without a matching
  import, \<open>Inl\<close> an exception.\<close>

definition run ::
  "Host \<Rightarrow> string \<Rightarrow> SourceFile \<Rightarrow> Options \<Rightarrow> string \<Rightarrow> error + string option" where
  "run host fileName sourceFile options text =
     (case runUpdates host fileName sourceFile options of
        Inl e \<Rightarrow> Inl e
      | Inr None \<Rightarrow> Inr None
      | Inr (Some us) \<Rightarrow>
          (case updateSourceText text us of
             Inl e \<Rightarrow> Inl e
           | Inr result \<Rightarrow>
               (let cleaned = stripTrailingSpaces result
                in Inr (Some (if endsWith text [CHR 0x0A] \<and> \<not> endsWith cleaned [CHR 0x0A]
                              then cleaned @ [CHR 0x0A] else cleaned)))))"





text \<open>A statement with the declarations after the first one cut off.\<close>

fun firstDeclarationOnly :: "Statement \<Rightarrow> Statement" where
  "firstDeclarationOnly (VariableStatement node mods flags decls) =
     VariableStatement node mods flags (take 1 decls)"
| "firstDeclarationOnly node = node"

text \<open>The edits a variable statement with first declaration \<open>d\<close> can cause: an insert at
  the start of the file, at the start or at the end of the statement; a replace of the
  range of \<open>d\<close> from the character after its \<open>pos\<close>; a delete of seven characters where
  \<^verbatim>\<open>export\<close> first occurs in the full text of the statement.  \<open>addsOnly P st st'\<close>: the
  edits of \<open>st'\<close> are those of \<open>st\<close> followed by edits that satisfy \<open>P\<close>.\<close>

fun editOfFirstDeclaration ::
  "string \<Rightarrow> TextRange \<Rightarrow> VariableDeclaration \<Rightarrow> SourceTextUpdate \<Rightarrow> bool" where
  "editOfFirstDeclaration src node d (Insert i t) =
     (i = 0 \<or> i = pos node \<or> i = endPos node)"
| "editOfFirstDeclaration src node d (Replace i n t) =
     (i = pos (declarationRange d) + 1 \<and> i + n = endPos (declarationRange d))"
| "editOfFirstDeclaration src node d (Delete i n) =
     (i = pos node + indexOf (getFullText src node) ''export'' \<and> n = 7)"

definition addsOnly :: "(SourceTextUpdate \<Rightarrow> bool) \<Rightarrow> RunState \<Rightarrow> RunState \<Rightarrow> bool" where
  "addsOnly P st st' = (\<exists>new. updates st' = updates st @ new \<and> list_all P new)"

section \<open>Example files\<close>

text \<open>A host for the examples: its printer writes the same mark for every node, the
  type of every shape is the empty type literal, a new line is LF.\<close>

definition exampleHost :: Host where
  "exampleHost = Host (\<lambda>sourceFile node. ''<node>'') (\<lambda>arg sourceFile options. TypeLiteralNode [])
     [CHR 0x0A]"

text \<open>The statement \<^verbatim>\<open>import PropTypes from 'prop-types';\<close> at the start of a file.\<close>

definition importLine :: string where
  "importLine = ''import PropTypes from '' @ [CHR 0x27] @ ''prop-types'' @ [CHR 0x27] @ '';''"

definition importPropTypes :: Statement where
  "importPropTypes = ImportDeclaration (TextRange 0 0 35) (Some ''PropTypes'')
     (StringLiteral (TextRange 21 22 34) ''prop-types'')"

text \<open>A file with the import and no shape: its second line, \<^verbatim>\<open>const x = 1;\<close>, ends in two
  spaces.\<close>

definition plainText :: string where
  "plainText = importLine @ [CHR 0x0A] @
     ''const x = 1;  '' @ [CHR 0x0A]"

definition plainFile :: SourceFile where
  "plainFile = SourceFile plainText
     [importPropTypes,
      VariableStatement (TextRange 35 36 48) [] ConstFlag
        [VariableDeclaration (TextRange 41 42 47) (BindingIdentifier (TextRange 41 42 43) ''x'')
           None (Some (OtherExpression (TextRange 45 46 47)))]]"

text \<open>The same file without the two spaces, and a file that is the second line alone.\<close>

definition cleanText :: string where
  "cleanText = importLine @ [CHR 0x0A] @ ''const x = 1;'' @ [CHR 0x0A]"

definition cleanFile :: SourceFile where
  "cleanFile = SourceFile cleanText (statements plainFile)"









text \<open>An exported shape under a documentation comment:
  \<^verbatim>\<open>/** exported shape */\<close> and \<^verbatim>\<open>export const Bar = PropTypes.shape({});\<close>.\<close>

definition commentedExportText :: string where
  "commentedExportText = importLine @ [CHR 0x0A] @
     ''/** exported shape */'' @ [CHR 0x0A] @
     ''export const Bar = PropTypes.shape({});'' @ [CHR 0x0A]"

definition commentedExportFile :: SourceFile where
  "commentedExportFile = SourceFile commentedExportText
     [importPropTypes,
      VariableStatement (TextRange 35 58 97) [ExportKeyword] ConstFlag
        [VariableDeclaration (TextRange 70 71 96) (BindingIdentifier (TextRange 70 71 74) ''Bar'')
           None
           (Some (CallExpression (TextRange 76 77 96) (OtherExpression (TextRange 76 77 92))
              [ObjectLiteralExpression (TextRange 93 93 95)]))]]"

text \<open>An array of shapes, \<^verbatim>\<open>const Foos = PropTypes.arrayOf(PropTypes.shape({}));\<close>, before
  the plugin has run and after: the second file has the alias \<^verbatim>\<open>type Foos = {}[];\<close> on
  the lines before the statement.  \<open>aliasHost\<close> prints that alias.\<close>

definition aliasHost :: Host where
  "aliasHost = Host (\<lambda>sourceFile node. ''type Foos = {}[];'')
     (\<lambda>arg sourceFile options. TypeLiteralNode []) [CHR 0x0A]"

definition arrayOfText0 :: string where
  "arrayOfText0 = importLine @ [CHR 0x0A] @
     ''const Foos = PropTypes.arrayOf(PropTypes.shape({}));'' @ [CHR 0x0A]"

definition arrayOfFile0 :: SourceFile where
  "arrayOfFile0 = SourceFile arrayOfText0
     [importPropTypes,
      VariableStatement (TextRange 35 36 88) [] ConstFlag
        [VariableDeclaration (TextRange 41 42 87) (BindingIdentifier (TextRange 41 42 46) ''Foos'')
           None
           (Some (CallExpression (TextRange 48 49 87) (OtherExpression (TextRange 48 49 66))
              [CallExpression (TextRange 67 67 86) (OtherExpression (TextRange 67 67 82))
                 [ObjectLiteralExpression (TextRange 83 83 85)]]))]]"

definition arrayOfText :: string where
  "arrayOfText = importLine @ [CHR 0x0A] @
     [CHR 0x0A] @ ''type Foos = {}[];'' @ [CHR 0x0A] @
     ''const Foos = PropTypes.arrayOf(PropTypes.shape({}));'' @ [CHR 0x0A]"

definition arrayOfFile :: SourceFile where
  "arrayOfFile = SourceFile arrayOfText
     [importPropTypes,
      TypeAliasDeclaration (TextRange 35 37 54) ''Foos'' (ArrayTypeNode (TypeLiteralNode [])),
      VariableStatement (TextRange 54 55 107) [] ConstFlag
        [VariableDeclaration (TextRange 60 61 106) (BindingIdentifier (TextRange 60 61 65) ''Foos'')
           None
           (Some (CallExpression (TextRange 67 68 106) (OtherExpression (TextRange 67 68 85))
              [CallExpression (TextRange 86 86 105) (OtherExpression (TextRange 86 86 101))
                 [ObjectLiteralExpression (TextRange 102 102 104)]]))]]"

text \<open>Two shapes in one statement:
  \<^verbatim>\<open>const A = PropTypes.shape({}), B = PropTypes.shape({});\<close>.\<close>

definition twoShapesText :: string where
  "twoShapesText = importLine @ [CHR 0x0A] @
     ''const A = PropTypes.shape({}), B = PropTypes.shape({});'' @ [CHR 0x0A]"

definition declarationA :: VariableDeclaration where
  "declarationA = VariableDeclaration (TextRange 41 42 65)
     (BindingIdentifier (TextRange 41 42 43) ''A'') None
     (Some (CallExpression (TextRange 45 46 65) (OtherExpression (TextRange 45 46 61))
        [ObjectLiteralExpression (TextRange 62 62 64)]))"

definition declarationB :: VariableDeclaration where
  "declarationB = VariableDeclaration (TextRange 66 67 90)
     (BindingIdentifier (TextRange 66 67 68) ''B'') None
     (Some (CallExpression (TextRange 70 71 90) (OtherExpression (TextRange 70 71 86))
        [ObjectLiteralExpression (TextRange 87 87 89)]))"

definition twoShapesFile :: SourceFile where
  "twoShapesFile = SourceFile twoShapesText
     [importPropTypes,
      VariableStatement (TextRange 35 36 91) [] ConstFlag [declarationA, declarationB]]"

text \<open>A function with a type on its parameter and a return type,
  \<^verbatim>\<open>function f(x: string): boolean { return true; }\<close>, under a comment of four lines with
  the tags \<^verbatim>\<open>@param {number} [x]\<close> and \<^verbatim>\<open>@returns {number}\<close>; and the same function with
  the return tag only.\<close>

definition typedParam :: ParameterDeclaration where
  "typedParam = ParameterDeclaration [] False (Some (BindingIdentifier (TextRange 63 63 64) ''x''))
     False (Some (KeywordTypeNode StringKeyword)) None"

definition typedFunction :: SignatureDeclaration where
  "typedFunction = SignatureDeclaration [typedParam] (Some (KeywordTypeNode BooleanKeyword))
     [ParameterTag (JSDocParameterTag (Some (Identifier ''x''))
        (Some (KeywordTypeNode NumberKeyword)) True),
      OtherTag ''returns'']
     (Some (KeywordTypeNode NumberKeyword)) FunctionDeclaration None (Some 61) False False"

definition untaggedFunction :: SignatureDeclaration where
  "untaggedFunction = SignatureDeclaration [typedParam] (Some (KeywordTypeNode BooleanKeyword))
     [OtherTag ''returns'']
     (Some (KeywordTypeNode NumberKeyword)) FunctionDeclaration None (Some 61) False False"

text \<open>The tags \<^verbatim>\<open>@param {string} opts.name\<close> and \<^verbatim>\<open>@param {number} opts.age\<close>, and a
  destructured parameter \<^verbatim>\<open>{ name, age }\<close> with no type and no initializer.\<close>

definition exampleTags :: "JSDocTag list" where
  "exampleTags =
     [ParameterTag (JSDocParameterTag (Some (QualifiedName (Identifier ''opts'') ''name''))
        (Some (KeywordTypeNode StringKeyword)) False),
      ParameterTag (JSDocParameterTag (Some (QualifiedName (Identifier ''opts'') ''age''))
        (Some (KeywordTypeNode NumberKeyword)) False)]"

definition exampleParam :: ParameterDeclaration where
  "exampleParam = ParameterDeclaration [] False (Some (ObjectBindingPattern (TextRange 10 10 23)))
     False None None"

text \<open>The function of the example, with the two dotted tags, and the same function with
  the single tag \<^verbatim>\<open>@param {Object} opts\<close>.\<close>

definition exampleFunction :: SignatureDeclaration where
  "exampleFunction = SignatureDeclaration [exampleParam] None exampleTags None
     FunctionDeclaration None (Some 9) False False"

definition objectTagFunction :: SignatureDeclaration where
  "objectTagFunction = SignatureDeclaration [exampleParam] None
     [ParameterTag (JSDocParameterTag (Some (Identifier ''opts''))
        (Some (TypeReferenceNode (Identifier ''Object'') None)) False)] None
     FunctionDeclaration None (Some 9) False False"

section \<open>Properties of the jsdoc plugin\<close>

text \<open>
  C2.  A documentary reference \<^verbatim>\<open>Object<K, V>\<close> whose first argument is the string or
  the number keyword is turned into a type literal with one index signature, keyed
  \<open>s: string\<close> or \<open>n: number\<close>, with \<open>V\<close> as its value type.  This holds for every type
  map and every any type: the name \<open>Object\<close> is never looked up on this path.
\<close>

theorem object_map_is_index_signature:
  "visitJSDocType typeMap anyT
     (TypeReferenceNode (Identifier ''Object'') (Some [KeywordTypeNode StringKeyword, v])) =
   TypeLiteralNode
     [IndexSignature
        [ParameterDeclaration [] False (Some (BindingIdentifier synthetic ''s'')) False
           (Some (TypeReferenceNode (Identifier ''string'') None)) None] v]
   \<and>
   visitJSDocType typeMap anyT
     (TypeReferenceNode (Identifier ''Object'') (Some [KeywordTypeNode NumberKeyword, v])) =
   TypeLiteralNode
     [IndexSignature
        [ParameterDeclaration [] False (Some (BindingIdentifier synthetic ''n'')) False
           (Some (TypeReferenceNode (Identifier ''number'') None)) None] v]"
  by (simp add: visitJSDocIndexSignature_def createTypeReferenceNode_def)

text \<open>An instance, under a type map that renames \<open>Object\<close>.\<close>

theorem object_map_is_index_signature_witness:
  "visitJSDocType (mergedTypeMap [''Object'' \<mapsto> Rename ''Record''])
     (anyType None)
     (TypeReferenceNode (Identifier ''Object'')
        (Some [KeywordTypeNode StringKeyword, TypeReferenceNode (Identifier ''Foo'') None])) =
   TypeLiteralNode
     [IndexSignature
        [ParameterDeclaration [] False (Some (BindingIdentifier synthetic ''s'')) False
           (Some (TypeReferenceNode (Identifier ''string'') None)) None]
        (TypeReferenceNode (Identifier ''Foo'') None)]"
  using object_map_is_index_signature
    [of "mergedTypeMap [''Object'' \<mapsto> Rename ''Record'']" "anyType None"
        "TypeReferenceNode (Identifier ''Foo'') None"]
  by (rule conjunct1)

text \<open>
  C7 as stated fails: under the default type map \<open>Object\<close> is renamed to the primitive
  name \<open>object\<close>, yet \<^verbatim>\<open>Object<string, Foo>\<close> does not become the object keyword.
\<close>

theorem primitive_reference_counterexample:
  "fst (resolveTypeName defaultTypeMap ''Object'') = ''object''
   \<and> PRIMITIVE_KEYWORDS ''object'' = Some ObjectKeyword
   \<and> visitJSDocType defaultTypeMap (anyType None)
       (TypeReferenceNode (Identifier ''Object'')
          (Some [KeywordTypeNode StringKeyword, TypeReferenceNode (Identifier ''Foo'') None]))
     \<noteq> KeywordTypeNode ObjectKeyword"
  by (simp add: resolveTypeName_def defaultTypeMap_def PRIMITIVE_KEYWORDS_def
      visitJSDocIndexSignature_def createTypeReferenceNode_def)

text \<open>
  C7, amended.  A reference whose name is an identifier that the type map resolves to one
  of the five primitive names, and that is not the index-signature form
  \<^verbatim>\<open>Object<string, V>\<close> or \<^verbatim>\<open>Object<number, V>\<close>, becomes the keyword type of that name,
  whatever type arguments it has.
\<close>

theorem primitive_reference:
  assumes "PRIMITIVE_KEYWORDS (fst (resolveTypeName typeMap text)) = Some kind"
    and "\<not> isJSDocIndexSignature (TypeReferenceNode (Identifier text) typeArguments)"
  shows "visitJSDocType typeMap anyT (TypeReferenceNode (Identifier text) typeArguments) =
         KeywordTypeNode kind"
proof -
  obtain t acc where r: "resolveTypeName typeMap text = (t, acc)"
    by (cases "resolveTypeName typeMap text")
  with assms(1) have "PRIMITIVE_KEYWORDS t = Some kind"
    by simp
  with assms(2) r show ?thesis
    by (simp add: primitiveKeywordNode_def)
qed

text \<open>An instance: \<^verbatim>\<open>String<Foo>\<close> under the default type map.\<close>

theorem primitive_reference_witness:
  "PRIMITIVE_KEYWORDS (fst (resolveTypeName defaultTypeMap ''String'')) = Some StringKeyword
   \<and> \<not> isJSDocIndexSignature (TypeReferenceNode (Identifier ''String'')
          (Some [TypeReferenceNode (Identifier ''Foo'') None]))
   \<and> visitJSDocType defaultTypeMap (anyType None)
       (TypeReferenceNode (Identifier ''String'')
          (Some [TypeReferenceNode (Identifier ''Foo'') None])) =
     KeywordTypeNode StringKeyword"
proof -
  have a: "PRIMITIVE_KEYWORDS (fst (resolveTypeName defaultTypeMap ''String'')) = Some StringKeyword"
    by (simp add: resolveTypeName_def defaultTypeMap_def PRIMITIVE_KEYWORDS_def)
  have b: "\<not> isJSDocIndexSignature (TypeReferenceNode (Identifier ''String'')
          (Some [TypeReferenceNode (Identifier ''Foo'') None]))"
    by simp
  from a b primitive_reference [OF a b] show ?thesis by blast
qed

lemma mapResult_Inr:
  "mapResult f xs = Inr ys \<Longrightarrow>
     length ys = length xs \<and> (\<forall>i < length xs. f (xs ! i) = Inr (ys ! i))"
proof (induction xs arbitrary: ys)
  case Nil
  then show ?case by simp
next
  case (Cons x xs)
  from Cons.prems obtain y ys' where y: "f x = Inr y" and ys': "mapResult f xs = Inr ys'"
    and eq: "ys = y # ys'"
    by (auto split: sum.splits)
  from Cons.IH [OF ys'] have ih: "length ys' = length xs"
    "\<And>i. i < length xs \<Longrightarrow> f (xs ! i) = Inr (ys' ! i)" by auto
  show ?case
  proof (intro conjI allI impI)
    show "length ys = length (x # xs)" using eq ih(1) by simp
  next
    fix i assume "i < length (x # xs)"
    then show "f ((x # xs) ! i) = Inr (ys ! i)"
      using y eq ih(2) by (cases i) auto
  qed
qed

lemma mapResult_total:
  "(\<And>x. x \<in> set xs \<Longrightarrow> \<exists>y. f x = Inr y) \<Longrightarrow> \<exists>ys. mapResult f xs = Inr ys"
proof (induction xs)
  case Nil
  then show ?case by simp
next
  case (Cons x xs)
  from Cons.prems [of x] obtain y where y: "f x = Inr y" by auto
  from Cons.IH Cons.prems obtain ys where "mapResult f xs = Inr ys" by auto
  with y show ?case by simp
qed

lemma visitParameter_total:
  "hasName p \<Longrightarrow> \<exists>q. visitParameter typeMap anyT tags p = Inr q"
  unfolding visitParameter_def hasName_def Let_def
  by (auto split: option.splits BindingName.splits)

subsection \<open>Destructured parameters\<close>

lemma splitOn_nonempty: "splitOn c s \<noteq> []"
  by (induction s) (auto split: list.splits)

lemma splitOn_free: "seg \<in> set (splitOn c s) \<Longrightarrow> c \<notin> set seg"
  by (induction s arbitrary: seg) (auto split: list.splits if_splits)

lemma splitOn_segment:
  "c \<notin> set seg \<Longrightarrow> splitOn c (seg @ c # r) = seg # splitOn c r"
  by (induction seg) (auto split: list.splits)

lemma splitOn_single: "c \<notin> set seg \<Longrightarrow> splitOn c seg = [seg]"
  by (induction seg) (auto split: list.splits)

lemma splitOn_single_iff: "(length (splitOn c s) = 1) = (c \<notin> set s)"
proof
  assume "c \<notin> set s" then show "length (splitOn c s) = 1" by (simp add: splitOn_single)
next
  assume "length (splitOn c s) = 1"
  then show "c \<notin> set s"
    using splitOn_nonempty [of c]
    by (induction s) (auto split: list.splits if_splits)
qed

lemma joinWith_splitOn: "joinWith c (splitOn c s) = s"
proof (induction s)
  case Nil then show ?case by simp
next
  case (Cons x xs)
  then show ?case
    using splitOn_nonempty [of c xs]
    by (cases "splitOn c xs"; cases "tl (splitOn c xs)") (auto split: list.splits)
qed

lemma joinWith_append:
  "p \<noteq> [] \<Longrightarrow> q \<noteq> [] \<Longrightarrow> joinWith c (p @ q) = joinWith c p @ c # joinWith c q"
  by (induction c p rule: joinWith.induct) (auto simp: neq_Nil_conv)

lemma splitOn_joinWith_append:
  "p \<noteq> [] \<Longrightarrow> \<forall>seg\<in>set p. c \<notin> set seg
     \<Longrightarrow> splitOn c (joinWith c p @ c # r) = p @ splitOn c r"
  by (induction c p rule: joinWith.induct) (auto simp: splitOn_segment)


lemma startsWith_path:
  assumes "p \<noteq> []" and "\<forall>seg\<in>set p. c \<notin> set seg"
  shows "startsWith s (joinWith c p @ [c]) =
     (length p < length (splitOn c s) \<and> take (length p) (splitOn c s) = p)"
proof
  assume "startsWith s (joinWith c p @ [c])"
  then have "s = (joinWith c p @ [c]) @ drop (length (joinWith c p @ [c])) s"
    unfolding startsWith_def by (metis append_take_drop_id)
  then obtain r where "s = joinWith c p @ c # r" by auto
  then have "splitOn c s = p @ splitOn c r"
    using assms by (simp add: splitOn_joinWith_append)
  then show "length p < length (splitOn c s) \<and> take (length p) (splitOn c s) = p"
    using splitOn_nonempty [of c r] by simp
next
  assume a: "length p < length (splitOn c s) \<and> take (length p) (splitOn c s) = p"
  define rest where "rest = drop (length p) (splitOn c s)"
  from a have "rest \<noteq> []"
    unfolding rest_def by simp
  from a have sp: "splitOn c s = p @ rest"
    unfolding rest_def by (metis append_take_drop_id)
  have "s = joinWith c (splitOn c s)" by (simp add: joinWith_splitOn)
  also have "\<dots> = joinWith c p @ c # joinWith c rest"
    using assms(1) \<open>rest \<noteq> []\<close> by (simp add: sp joinWith_append)
  finally have "s = (joinWith c p @ [c]) @ joinWith c rest" by simp
  then show "startsWith s (joinWith c p @ [c])"
    unfolding startsWith_def by (metis append_eq_conv_conj)
qed

lemma isChildTag_path:
  assumes "p \<noteq> []" and "\<forall>seg\<in>set p. CHR ''.'' \<notin> set seg"
  shows "isChildTag (joinWith CHR ''.'' p) tag = specIsMember p tag"
proof (cases "tagName tag")
  case None
  then show ?thesis by (simp add: isChildTag_def specIsMember_def tagPath_def)
next
  case (Some n)
  let ?s = "getEntityNameText n"
  let ?j = "joinWith CHR ''.'' p"
  have path: "tagPath tag = splitOn CHR ''.'' ?s"
    using Some by (simp add: tagPath_def)
  show ?thesis
  proof
    assume "isChildTag ?j tag"
    then have st: "startsWith ?s (?j @ ''.'')"
      and free: "CHR ''.'' \<notin> set (drop (Suc (length ?j)) ?s)"
      using Some by (auto simp: isChildTag_def Let_def substring_def includesChar_def
          split: if_splits)
    from st have "?s = (?j @ ''.'') @ drop (length (?j @ ''.'')) ?s"
      unfolding startsWith_def by (metis append_take_drop_id)
    then obtain r where r: "?s = ?j @ CHR ''.'' # r" by auto
    then have "drop (Suc (length ?j)) ?s = r" by simp
    with free have "CHR ''.'' \<notin> set r" by simp
    then have "splitOn CHR ''.'' ?s = p @ [r]"
      using assms r by (simp add: splitOn_joinWith_append splitOn_single)
    then show "specIsMember p tag"
      by (simp add: specIsMember_def path)
  next
    assume "specIsMember p tag"
    then have ne: "splitOn CHR ''.'' ?s \<noteq> []" and bl: "butlast (splitOn CHR ''.'' ?s) = p"
      by (simp_all add: specIsMember_def path)
    define l where "l = last (splitOn CHR ''.'' ?s)"
    from ne bl have sp: "splitOn CHR ''.'' ?s = p @ [l]"
      unfolding l_def by (metis append_butlast_last_id)
    then have "l \<in> set (splitOn CHR ''.'' ?s)" by simp
    then have free: "CHR ''.'' \<notin> set l" by (rule splitOn_free)
    have "?s = joinWith CHR ''.'' (splitOn CHR ''.'' ?s)" by (simp add: joinWith_splitOn)
    also have "\<dots> = ?j @ CHR ''.'' # l"
      using assms(1) by (simp add: sp joinWith_append)
    finally have s: "?s = ?j @ CHR ''.'' # l" .
    have "startsWith ?s (?j @ ''.'')"
      by (subst s) (simp add: startsWith_def)
    moreover have "drop (Suc (length ?j)) ?s = l"
      by (subst s) simp
    ultimately show "isChildTag ?j tag"
      using Some free by (simp add: isChildTag_def Let_def substring_def includesChar_def)
  qed
qed

lemma childPropertyName_path:
  assumes "p \<noteq> []" and "specIsMember p tag"
  shows "childPropertyName (joinWith CHR ''.'' p) tag = last (tagPath tag)"
    and "joinWith CHR ''.'' p @ ''.'' @ last (tagPath tag) = joinWith CHR ''.'' (tagPath tag)"
    and "tagPath tag \<noteq> []"
    and "\<forall>seg\<in>set (tagPath tag). CHR ''.'' \<notin> set seg"
proof -
  from assms(2) have ne: "tagPath tag \<noteq> []" and bl: "butlast (tagPath tag) = p"
    by (simp_all add: specIsMember_def)
  then obtain n where n: "tagName tag = Some n"
    by (cases "tagName tag") (auto simp: tagPath_def)
  let ?s = "getEntityNameText n"
  let ?j = "joinWith CHR ''.'' p"
  have path: "tagPath tag = splitOn CHR ''.'' ?s"
    using n by (simp add: tagPath_def)
  from ne bl have sp: "tagPath tag = p @ [last (tagPath tag)]"
    by (metis append_butlast_last_id)
  have "?s = joinWith CHR ''.'' (tagPath tag)" by (simp add: path joinWith_splitOn)
  also have "\<dots> = ?j @ CHR ''.'' # last (tagPath tag)"
    using assms(1) by (subst sp) (simp add: joinWith_append)
  finally have s: "?s = ?j @ CHR ''.'' # last (tagPath tag)" .
  have "drop (Suc (length ?j)) ?s = last (tagPath tag)"
    by (subst s) simp
  then show "childPropertyName ?j tag = last (tagPath tag)"
    using n by (simp add: childPropertyName_def substring_def)
  show "?j @ ''.'' @ last (tagPath tag) = joinWith CHR ''.'' (tagPath tag)"
    using assms(1) by (subst (2) sp) (simp add: joinWith_append)
  show "tagPath tag \<noteq> []" by (rule ne)
  show "\<forall>seg\<in>set (tagPath tag). CHR ''.'' \<notin> set seg"
    by (simp add: path splitOn_free)
qed

lemma hasNestedChildren_path:
  assumes "p \<noteq> []" and "\<forall>seg\<in>set p. CHR ''.'' \<notin> set seg"
  shows "hasNestedChildren (joinWith CHR ''.'' p) allTags = specHasChildren p allTags"
proof -
  have "\<And>t. tagNameStartsWith t (joinWith CHR ''.'' p @ ''.'') =
      (length p < length (tagPath t) \<and> take (length p) (tagPath t) = p)"
    using startsWith_path [OF assms]
    by (simp add: tagNameStartsWith_def tagPath_def split: option.splits)
  then show ?thesis
    by (simp add: hasNestedChildren_def specHasChildren_def)
qed

text \<open>\<open>buildNestedType\<close> on the text of a path is the nested object type at the path.\<close>

lemma buildNestedType_refines:
  "path \<noteq> [] \<Longrightarrow> \<forall>seg\<in>set path. CHR ''.'' \<notin> set seg
     \<Longrightarrow> buildNestedType typeMap anyT (joinWith CHR ''.'' path) allTags =
         specNestedType typeMap anyT path allTags"
proof (induction typeMap anyT path allTags rule: specNestedType.induct)
  case (1 typeMap anyT path allTags)
  let ?j = "joinWith CHR ''.'' path"
  have "isChildTag ?j = specIsMember path"
    by (rule ext) (rule isChildTag_path [OF "1.prems"])
  then have f: "filter (isChildTag ?j) allTags = filter (specIsMember path) allTags"
    by simp
  have "map (\<lambda>tag.
               PropertySignature (childPropertyName ?j tag) (tagIsOptional tag)
                 (if hasNestedChildren (?j @ ''.'' @ childPropertyName ?j tag) allTags
                  then buildNestedType typeMap anyT (?j @ ''.'' @ childPropertyName ?j tag) allTags
                  else leafPropertyType typeMap anyT tag))
            (filter (specIsMember path) allTags) =
        map (\<lambda>tag.
               PropertySignature (last (tagPath tag)) (tagIsOptional tag)
                 (if specHasChildren (tagPath tag) allTags
                  then specNestedType typeMap anyT (tagPath tag) allTags
                  else leafPropertyType typeMap anyT tag))
            (filter (specIsMember path) allTags)"
  proof (rule map_cong [OF refl])
    fix tag assume m: "tag \<in> set (filter (specIsMember path) allTags)"
    then have mem: "specIsMember path tag" by simp
    note c = childPropertyName_path [OF "1.prems"(1) mem]
    have c2: "?j @ CHR ''.'' # last (tagPath tag) = joinWith CHR ''.'' (tagPath tag)"
      using c(2) by simp
    have h: "hasNestedChildren (joinWith CHR ''.'' (tagPath tag)) allTags =
        specHasChildren (tagPath tag) allTags"
      using hasNestedChildren_path [OF c(3) c(4)] .
    have r: "specHasChildren (tagPath tag) allTags \<Longrightarrow>
        buildNestedType typeMap anyT (joinWith CHR ''.'' (tagPath tag)) allTags =
        specNestedType typeMap anyT (tagPath tag) allTags"
      using "1.IH" [OF m _ c(3) c(4)] by simp
    show "PropertySignature (childPropertyName ?j tag) (tagIsOptional tag)
                 (if hasNestedChildren (?j @ ''.'' @ childPropertyName ?j tag) allTags
                  then buildNestedType typeMap anyT (?j @ ''.'' @ childPropertyName ?j tag) allTags
                  else leafPropertyType typeMap anyT tag) =
          PropertySignature (last (tagPath tag)) (tagIsOptional tag)
                 (if specHasChildren (tagPath tag) allTags
                  then specNestedType typeMap anyT (tagPath tag) allTags
                  else leafPropertyType typeMap anyT tag)"
      using r by (simp add: c(1) c2 h)
  qed
  then show ?case
    by (subst buildNestedType.simps, subst specNestedType.simps) (simp add: f)
qed

lemma isDottedTag_path: "isDottedTag t = (1 < length (tagPath t))"
proof (cases "tagName t")
  case None
  then show ?thesis by (simp add: isDottedTag_def tagPath_def)
next
  case (Some n)
  have "length (splitOn CHR ''.'' (getEntityNameText n)) \<noteq> 0"
    using splitOn_nonempty by simp
  moreover have "(length (splitOn CHR ''.'' (getEntityNameText n)) = 1) =
      (CHR ''.'' \<notin> set (getEntityNameText n))"
    by (rule splitOn_single_iff)
  ultimately have "(1 < length (splitOn CHR ''.'' (getEntityNameText n))) =
      (CHR ''.'' \<in> set (getEntityNameText n))"
    by linarith
  with Some show ?thesis by (simp add: isDottedTag_def tagPath_def includesChar_def)
qed

lemma splitFirst_hd: "splitFirst c s = hd (splitOn c s)"
  using splitOn_nonempty [of c]
  by (induction s) (auto simp: splitFirst_def split: list.splits)

text \<open>
  C8, amended.  Take a declaration that carries at least one parameter tag and whose
  parameters all have names, and in it a parameter without a type that is an object
  pattern, the only one of the declaration, where no dotted tag is rooted at the name of
  a parameter, so that every dotted tag matches the pattern.  The parameter gets a type
  and keeps everything else: the nested object type at the root of the first matching
  dotted tag when there is one, the object keyword when there is none.  In a declaration
  without a parameter tag the parameters stay as they are.
\<close>

theorem destructured_parameter:
  "(hasJSDocParameterTags fn
      \<and> list_all hasName (parameters fn)
      \<and> i < length (parameters fn)
      \<and> paramType (parameters fn ! i) = None
      \<and> isObjectPattern (parameters fn ! i)
      \<and> (\<forall>j < length (parameters fn). j \<noteq> i \<longrightarrow> \<not> isObjectPattern (parameters fn ! j))
      \<and> list_all (\<lambda>t. 1 < length (tagPath t) \<longrightarrow> specMatches fn t) (parameterTags (jsDocTags fn))
    \<longrightarrow> (\<exists>newParams.
           visitParameters typeMap anyT fn = Inr newParams
         \<and> length newParams = length (parameters fn)
         \<and> newParams ! i =
             withType (parameters fn ! i) (questionToken (parameters fn ! i))
               (case find (specMatches fn) (parameterTags (jsDocTags fn)) of
                  None \<Rightarrow> KeywordTypeNode ObjectKeyword
                | Some rootTag \<Rightarrow>
                    specNestedType typeMap anyT [hd (tagPath rootTag)]
                      (parameterTags (jsDocTags fn)))))
   \<and> (\<not> hasJSDocParameterTags fn \<longrightarrow> visitParameters typeMap anyT fn = Inr (parameters fn))"
proof (intro conjI impI)
  assume "\<not> hasJSDocParameterTags fn"
  then show "visitParameters typeMap anyT fn = Inr (parameters fn)"
    by (simp add: visitParameters_def)
next
  let ?tags = "parameterTags (jsDocTags fn)"
  let ?f = "visitParameter typeMap anyT ?tags"
  assume a: "hasJSDocParameterTags fn
      \<and> list_all hasName (parameters fn)
      \<and> i < length (parameters fn)
      \<and> paramType (parameters fn ! i) = None
      \<and> isObjectPattern (parameters fn ! i)
      \<and> (\<forall>j < length (parameters fn). j \<noteq> i \<longrightarrow> \<not> isObjectPattern (parameters fn ! j))
      \<and> list_all (\<lambda>t. 1 < length (tagPath t) \<longrightarrow> specMatches fn t) ?tags"
  then have tags: "hasJSDocParameterTags fn" and names: "list_all hasName (parameters fn)"
    and i: "i < length (parameters fn)" and untyped: "paramType (parameters fn ! i) = None"
    and all: "list_all (\<lambda>t. 1 < length (tagPath t) \<longrightarrow> specMatches fn t) ?tags"
    by simp_all
  from a obtain r where pattern: "paramName (parameters fn ! i) = Some (ObjectBindingPattern r)"
    by (auto simp: isObjectPattern_def split: option.splits BindingName.splits)
  have "\<And>p. p \<in> set (parameters fn) \<Longrightarrow> \<exists>q. ?f p = Inr q"
    using names visitParameter_total by (auto simp: list_all_iff)
  then obtain newParams where np: "mapResult ?f (parameters fn) = Inr newParams"
    using mapResult_total [of "parameters fn" ?f] by blast
  from mapResult_Inr [OF np] i have len: "length newParams = length (parameters fn)"
    and at: "?f (parameters fn ! i) = Inr (newParams ! i)" by auto
  have same: "find (specMatches fn) ?tags = find isDottedTag ?tags"
  proof (rule find_cong [OF refl])
    fix t assume "t \<in> set ?tags"
    with all have "1 < length (tagPath t) \<longrightarrow> specMatches fn t"
      by (simp add: list_all_iff)
    then show "specMatches fn t = isDottedTag t"
      by (auto simp: isDottedTag_path specMatches_def)
  qed
  have built: "\<And>t n. find isDottedTag ?tags = Some t \<Longrightarrow> tagName t = Some n \<Longrightarrow>
      buildNestedType typeMap anyT (splitFirst CHR ''.'' (getEntityNameText n)) ?tags =
      specNestedType typeMap anyT [hd (tagPath t)] ?tags"
  proof -
    fix t n assume "find isDottedTag ?tags = Some t" and n: "tagName t = Some n"
    let ?root = "hd (splitOn CHR ''.'' (getEntityNameText n))"
    have "?root \<in> set (splitOn CHR ''.'' (getEntityNameText n))"
      using splitOn_nonempty by simp
    then have free: "\<forall>seg\<in>set [?root]. CHR ''.'' \<notin> set seg"
      by (simp add: splitOn_free)
    have "buildNestedType typeMap anyT (joinWith CHR ''.'' [?root]) ?tags =
        specNestedType typeMap anyT [?root] ?tags"
      by (rule buildNestedType_refines [OF _ free]) simp
    then show "buildNestedType typeMap anyT (splitFirst CHR ''.'' (getEntityNameText n)) ?tags =
        specNestedType typeMap anyT [hd (tagPath t)] ?tags"
      using n by (simp add: splitFirst_hd tagPath_def)
  qed
  have dotted: "\<And>t. find isDottedTag ?tags = Some t \<Longrightarrow> tagName t \<noteq> None"
  proof -
    fix t assume "find isDottedTag ?tags = Some t"
    then have "isDottedTag t" by (auto simp: find_Some_iff)
    then show "tagName t \<noteq> None" by (auto simp: isDottedTag_def split: option.splits)
  qed
  have "?f (parameters fn ! i) =
      Inr (withType (parameters fn ! i) (questionToken (parameters fn ! i))
               (case find (specMatches fn) ?tags of
                  None \<Rightarrow> KeywordTypeNode ObjectKeyword
                | Some rootTag \<Rightarrow> specNestedType typeMap anyT [hd (tagPath rootTag)] ?tags))"
    using untyped pattern dotted built
    by (auto simp: visitParameter_def Let_def same split: option.splits)
  with at have "newParams ! i = withType (parameters fn ! i) (questionToken (parameters fn ! i))
               (case find (specMatches fn) ?tags of
                  None \<Rightarrow> KeywordTypeNode ObjectKeyword
                | Some rootTag \<Rightarrow> specNestedType typeMap anyT [hd (tagPath rootTag)] ?tags)"
    by simp
  with np len tags show "\<exists>newParams.
           visitParameters typeMap anyT fn = Inr newParams
         \<and> length newParams = length (parameters fn)
         \<and> newParams ! i =
             withType (parameters fn ! i) (questionToken (parameters fn ! i))
               (case find (specMatches fn) ?tags of
                  None \<Rightarrow> KeywordTypeNode ObjectKeyword
                | Some rootTag \<Rightarrow>
                    specNestedType typeMap anyT [hd (tagPath rootTag)] ?tags)"
    by (simp add: visitParameters_def)
qed

lemma example_nested:
  "specNestedType typeMap anyT [''opts''] (parameterTags exampleTags) =
     TypeLiteralNode [PropertySignature ''name'' False (KeywordTypeNode StringKeyword),
                      PropertySignature ''age'' False (KeywordTypeNode NumberKeyword)]"
  by (simp add: specNestedType.simps exampleTags_def specIsMember_def tagPath_def
      specHasChildren_def tagIsOptional_def leafPropertyType_def)

text \<open>The example of the claim gives \<^verbatim>\<open>{ name: string; age: number }\<close>; with the single
  undotted tag \<^verbatim>\<open>@param {Object} opts\<close> the parameter gets the object keyword.\<close>

theorem destructured_parameter_witness:
  "visitParameters defaultTypeMap (anyType None) exampleFunction =
   Inr [withType exampleParam False
     (TypeLiteralNode [PropertySignature ''name'' False (KeywordTypeNode StringKeyword),
                       PropertySignature ''age'' False (KeywordTypeNode NumberKeyword)])]
   \<and>
   visitParameters defaultTypeMap (anyType None) objectTagFunction =
   Inr [withType exampleParam False (KeywordTypeNode ObjectKeyword)]"
proof -
  let ?fn = exampleFunction
  let ?gn = objectTagFunction
  note inst1 = destructured_parameter [of ?fn 0 defaultTypeMap "anyType None"]
  note inst2 = destructured_parameter [of ?gn 0 defaultTypeMap "anyType None"]
  have a: "hasJSDocParameterTags ?fn
      \<and> list_all hasName (parameters ?fn)
      \<and> 0 < length (parameters ?fn)
      \<and> paramType (parameters ?fn ! 0) = None
      \<and> isObjectPattern (parameters ?fn ! 0)
      \<and> (\<forall>j < length (parameters ?fn). j \<noteq> 0 \<longrightarrow> \<not> isObjectPattern (parameters ?fn ! j))
      \<and> list_all (\<lambda>t. 1 < length (tagPath t) \<longrightarrow> specMatches ?fn t) (parameterTags (jsDocTags ?fn))"
    by (simp add: exampleFunction_def hasJSDocParameterTags_def exampleTags_def hasName_def
        exampleParam_def isObjectPattern_def specMatches_def tagPath_def)
  have b: "hasJSDocParameterTags ?gn
      \<and> list_all hasName (parameters ?gn)
      \<and> 0 < length (parameters ?gn)
      \<and> paramType (parameters ?gn ! 0) = None
      \<and> isObjectPattern (parameters ?gn ! 0)
      \<and> (\<forall>j < length (parameters ?gn). j \<noteq> 0 \<longrightarrow> \<not> isObjectPattern (parameters ?gn ! j))
      \<and> list_all (\<lambda>t. 1 < length (tagPath t) \<longrightarrow> specMatches ?gn t) (parameterTags (jsDocTags ?gn))"
    by (simp add: objectTagFunction_def hasJSDocParameterTags_def hasName_def
        exampleParam_def isObjectPattern_def specMatches_def tagPath_def)
  have tg: "parameterTags (jsDocTags ?fn) = parameterTags exampleTags"
    by (simp add: exampleFunction_def)
  have root: "find (specMatches ?fn) (parameterTags exampleTags) =
      Some (JSDocParameterTag (Some (QualifiedName (Identifier ''opts'') ''name''))
        (Some (KeywordTypeNode StringKeyword)) False)"
    by (simp add: exampleFunction_def exampleTags_def exampleParam_def specMatches_def tagPath_def)
  have hd: "hd (tagPath (JSDocParameterTag (Some (QualifiedName (Identifier ''opts'') ''name''))
        (Some (KeywordTypeNode StringKeyword)) False)) = ''opts''"
    by (simp add: tagPath_def)
  have none: "find (specMatches ?gn) (parameterTags (jsDocTags ?gn)) = None"
    by (simp add: objectTagFunction_def exampleParam_def specMatches_def tagPath_def)
  have par: "parameters ?fn ! 0 = exampleParam" "parameters ?gn ! 0 = exampleParam"
    "questionToken exampleParam = False"
    by (simp_all add: exampleFunction_def objectTagFunction_def exampleParam_def)
  from inst1 a
  obtain ps where ps: "visitParameters defaultTypeMap (anyType None) ?fn = Inr ps"
    "length ps = length (parameters ?fn)"
    "ps ! 0 = withType (parameters ?fn ! 0) (questionToken (parameters ?fn ! 0))
        (case find (specMatches ?fn) (parameterTags (jsDocTags ?fn)) of
           None \<Rightarrow> KeywordTypeNode ObjectKeyword
         | Some rootTag \<Rightarrow>
             specNestedType defaultTypeMap (anyType None) [hd (tagPath rootTag)]
               (parameterTags (jsDocTags ?fn)))"
    by blast
  from ps(2) have "ps = [ps ! 0]"
    by (cases ps) (auto simp: exampleFunction_def)
  moreover from ps(3) have "ps ! 0 = withType exampleParam False
        (specNestedType defaultTypeMap (anyType None) [''opts''] (parameterTags exampleTags))"
    by (simp add: tg root hd par)
  ultimately have first: "visitParameters defaultTypeMap (anyType None) ?fn =
    Inr [withType exampleParam False
     (TypeLiteralNode [PropertySignature ''name'' False (KeywordTypeNode StringKeyword),
                       PropertySignature ''age'' False (KeywordTypeNode NumberKeyword)])]"
    using ps(1) by (simp add: example_nested)
  from inst2 b
  obtain qs where qs: "visitParameters defaultTypeMap (anyType None) ?gn = Inr qs"
    "length qs = length (parameters ?gn)"
    "qs ! 0 = withType (parameters ?gn ! 0) (questionToken (parameters ?gn ! 0))
        (case find (specMatches ?gn) (parameterTags (jsDocTags ?gn)) of
           None \<Rightarrow> KeywordTypeNode ObjectKeyword
         | Some rootTag \<Rightarrow>
             specNestedType defaultTypeMap (anyType None) [hd (tagPath rootTag)]
               (parameterTags (jsDocTags ?gn)))"
    by blast
  from qs(2) have "qs = [qs ! 0]"
    by (cases qs) (auto simp: objectTagFunction_def)
  moreover from qs(3) have "qs ! 0 = withType exampleParam False (KeywordTypeNode ObjectKeyword)"
    by (simp add: none par)
  ultimately have "visitParameters defaultTypeMap (anyType None) ?gn =
      Inr [withType exampleParam False (KeywordTypeNode ObjectKeyword)]"
    using qs(1) by simp
  with first show ?thesis by simp
qed

text \<open>C8 as stated fails for a declaration without any parameter tag: no dotted tag
  matches, and the destructured parameter stays untyped instead of getting the object
  keyword.\<close>

theorem destructured_parameter_counterexample:
  "visitParameters defaultTypeMap (anyType None)
     (SignatureDeclaration [exampleParam] None [] None FunctionDeclaration None (Some 9)
        False False) = Inr [exampleParam]
   \<and> paramType exampleParam = None"
  by (simp add: visitParameters_def hasJSDocParameterTags_def exampleParam_def)

text \<open>
  C9.  A named parameter without a type, with no nested tags and a direct tag that has a
  type expression, gets the visited type of the tag.  Its question token is set when it
  was set before, or when the parameter has no initializer and the tag is bracketed or
  its type is an optional type; with an initializer it stays as it was.
\<close>

theorem direct_tag_optionality:
  assumes untyped: "paramType param = None"
    and named: "paramName param = Some (BindingIdentifier r name)" "name \<noteq> []"
    and noNested: "filter (isNestedTag name) allParamTags = []"
    and direct: "find (isDirectTag name) allParamTags = Some tag"
    and texpr: "tagTypeExpression tag = Some typeNode"
  shows "\<exists>newParam.
           visitParameter typeMap anyT allParamTags param = Inr newParam
         \<and> paramType newParam = Some (visitJSDocType typeMap anyT typeNode)
         \<and> questionToken newParam =
             (questionToken param \<or>
              (paramInitializer param = None \<and> (isBracketed tag \<or> isJSDocOptionalType typeNode)))
         \<and> (paramInitializer param \<noteq> None \<longrightarrow> questionToken newParam = questionToken param)"
  using assms
  by (auto simp: visitParameter_def Let_def withType_def)

text \<open>The bracketed tag \<^verbatim>\<open>@param {number} [x]\<close> on \<^verbatim>\<open>x = 1\<close> and on \<^verbatim>\<open>x\<close>.\<close>

theorem direct_tag_optionality_witness:
  "visitParameter defaultTypeMap (anyType None)
     [JSDocParameterTag (Some (Identifier ''x'')) (Some (KeywordTypeNode NumberKeyword)) True]
     (ParameterDeclaration [] False (Some (BindingIdentifier (TextRange 11 11 12) ''x'')) False None
        (Some (OtherExpression (TextRange 14 15 16)))) =
   Inr (ParameterDeclaration [] False (Some (BindingIdentifier (TextRange 11 11 12) ''x'')) False
        (Some (KeywordTypeNode NumberKeyword)) (Some (OtherExpression (TextRange 14 15 16))))
   \<and>
   visitParameter defaultTypeMap (anyType None)
     [JSDocParameterTag (Some (Identifier ''x'')) (Some (KeywordTypeNode NumberKeyword)) True]
     (ParameterDeclaration [] False (Some (BindingIdentifier (TextRange 11 11 12) ''x'')) False None
        None) =
   Inr (ParameterDeclaration [] False (Some (BindingIdentifier (TextRange 11 11 12) ''x'')) True
        (Some (KeywordTypeNode NumberKeyword)) None)"
proof -
  let ?tag = "JSDocParameterTag (Some (Identifier ''x'')) (Some (KeywordTypeNode NumberKeyword)) True"
  let ?p = "ParameterDeclaration [] False (Some (BindingIdentifier (TextRange 11 11 12) ''x'')) False
      None (Some (OtherExpression (TextRange 14 15 16)))"
  let ?q = "ParameterDeclaration [] False (Some (BindingIdentifier (TextRange 11 11 12) ''x'')) False
      None None"
  have tags: "filter (isNestedTag ''x'') [?tag] = []" "find (isDirectTag ''x'') [?tag] = Some ?tag"
    "tagTypeExpression ?tag = Some (KeywordTypeNode NumberKeyword)"
    by (simp_all add: isNestedTag_def isDirectTag_def startsWith_def)
  have p: "paramType ?p = None" "paramName ?p = Some (BindingIdentifier (TextRange 11 11 12) ''x'')"
    "''x'' \<noteq> []"
    by simp_all
  have q: "paramType ?q = None" "paramName ?q = Some (BindingIdentifier (TextRange 11 11 12) ''x'')"
    "''x'' \<noteq> []"
    by simp_all
  from direct_tag_optionality [OF p tags, of defaultTypeMap "anyType None"]
  obtain p' where p': "visitParameter defaultTypeMap (anyType None) [?tag] ?p = Inr p'"
    "paramType p' = Some (KeywordTypeNode NumberKeyword)" "questionToken p' = False"
    by auto
  from direct_tag_optionality [OF q tags, of defaultTypeMap "anyType None"]
  obtain q' where q': "visitParameter defaultTypeMap (anyType None) [?tag] ?q = Inr q'"
    "paramType q' = Some (KeywordTypeNode NumberKeyword)" "questionToken q' = True"
    by auto
  from p' q' show ?thesis
    by (auto simp: visitParameter_def Let_def withType_def isNestedTag_def isDirectTag_def
        startsWith_def)
qed

section \<open>Properties of the react-shape plugin\<close>

text \<open>The definitions to unfold when the plugin is run on one of the example files.\<close>

lemmas eval_defs =
  runUpdates_def basename_def importMatches_def getText_def getFullText_def
  substringFromTo_def regexTest_def rxValidationImport_def rxPropTypes_def rxShape_def
  rxArrayOf_def lits_def importLine_def importPropTypes_def
  shapeVariable_def arrayOfShapesVariable_def defaultExportShape_def
  insertPropTypesRequireableNode_def splitVariableExport_def push_def
  getTypeForTheShape_def indexOf_def startsWith_def EXPORT_KEYWOARD_def splitFirst_def
  isLineTerminator_def Let_def

subsection \<open>Stripping trailing spaces\<close>









subsection \<open>Files without a shape\<close>











subsection \<open>The default export of a shape\<close>








text \<open>
  C4.  On \<open>commentedExportFile\<close> the separate export \<^verbatim>\<open>export { Bar };\<close> is inserted at the
  end of the statement, but the delete record does not hit the export keyword.  The
  keyword is searched for in the full text of the statement, which starts with the
  comment: the seven characters deleted at offset 40 are \<^verbatim>\<open>exporte\<close> of the word
  \<^verbatim>\<open>exported\<close>, and the keyword at offset 58 stays in the output.
\<close>

theorem export_keyword_search:
  "runUpdates host ''Bar.js'' commentedExportFile options =
     Inr (Some
       [Insert 35
          ([CHR 0x0A, CHR 0x0A] @
           printed host commentedExportFile
             (StatementNode (TypeAliasDeclaration synthetic ''Bar''
                (getTypeFromPropTypesObjectLiteral host
                   (Some (ObjectLiteralExpression (TextRange 93 93 95)))
                   commentedExportFile options)))),
        Replace 71 25
          (printed host commentedExportFile
             (VariableDeclarationNode
                (VariableDeclaration (TextRange 70 71 96)
                   (BindingIdentifier (TextRange 70 71 74) ''Bar'')
                   (Some (getShapeTypeNode ''Bar''))
                   (Some (CallExpression (TextRange 76 77 96)
                      (OtherExpression (TextRange 76 77 92))
                      [ObjectLiteralExpression (TextRange 93 93 95)]))))),
        Delete 40 7,
        Insert 97
          ([CHR 0x0A] @
           printed host commentedExportFile
             (StatementNode (ExportDeclaration synthetic [''Bar''])))])
   \<and> slice commentedExportText 40 (40 + 7) = ''exporte''
   \<and> slice commentedExportText 58 (58 + 7) = ''export ''
   \<and> run exampleHost ''Bar.js'' commentedExportFile (Options None None) commentedExportText =
       Inr (Some (importLine @ [CHR 0x0A, CHR 0x0A] @ ''<node>'' @ [CHR 0x0A] @
                  ''/** d shape */'' @ [CHR 0x0A] @ ''export const <node>;'' @ [CHR 0x0A] @
                  ''<node>'' @ [CHR 0x0A]))"
proof (intro conjI)
  show "runUpdates host ''Bar.js'' commentedExportFile options =
     Inr (Some
       [Insert 35
          ([CHR 0x0A, CHR 0x0A] @
           printed host commentedExportFile
             (StatementNode (TypeAliasDeclaration synthetic ''Bar''
                (getTypeFromPropTypesObjectLiteral host
                   (Some (ObjectLiteralExpression (TextRange 93 93 95)))
                   commentedExportFile options)))),
        Replace 71 25
          (printed host commentedExportFile
             (VariableDeclarationNode
                (VariableDeclaration (TextRange 70 71 96)
                   (BindingIdentifier (TextRange 70 71 74) ''Bar'')
                   (Some (getShapeTypeNode ''Bar''))
                   (Some (CallExpression (TextRange 76 77 96)
                      (OtherExpression (TextRange 76 77 92))
                      [ObjectLiteralExpression (TextRange 93 93 95)]))))),
        Delete 40 7,
        Insert 97
          ([CHR 0x0A] @
           printed host commentedExportFile
             (StatementNode (ExportDeclaration synthetic [''Bar''])))])"
    by (simp add: eval_defs commentedExportFile_def commentedExportText_def)
next
  show "slice commentedExportText 40 (40 + 7) = ''exporte''"
    by (simp add: slice_def commentedExportText_def importLine_def)
next
  show "slice commentedExportText 58 (58 + 7) = ''export ''"
    by (simp add: slice_def commentedExportText_def importLine_def)
next
  show "run exampleHost ''Bar.js'' commentedExportFile (Options None None) commentedExportText =
       Inr (Some (importLine @ [CHR 0x0A, CHR 0x0A] @ ''<node>'' @ [CHR 0x0A] @
                  ''/** d shape */'' @ [CHR 0x0A] @ ''export const <node>;'' @ [CHR 0x0A] @
                  ''<node>'' @ [CHR 0x0A]))"
    by code_simp
qed

text \<open>
  C6.  The first run on \<open>arrayOfFile0\<close> gives the text of \<open>arrayOfFile\<close>, where the alias
  \<open>Foos\<close> stands before the statement.  On that file the array branch records the insert
  of the alias again, although a type of that name is among the statements, and the second
  run gives a text with the alias twice.
\<close>

theorem array_of_shapes_second_run:
  "run aliasHost ''Foos.js'' arrayOfFile0 (Options None None) arrayOfText0 = Inr (Some arrayOfText)
   \<and> runUpdates host ''Foos.js'' arrayOfFile options =
       Inr (Some
         [Insert 54
            ([CHR 0x0A, CHR 0x0A] @
             printed host arrayOfFile
               (StatementNode (TypeAliasDeclaration synthetic ''Foos''
                  (ArrayTypeNode
                     (getTypeFromPropTypesObjectLiteral host
                        (Some (ObjectLiteralExpression (TextRange 102 102 104)))
                        arrayOfFile options)))))])
   \<and> run aliasHost ''Foos.js'' arrayOfFile (Options None None) arrayOfText =
       Inr (Some (importLine @ [CHR 0x0A, CHR 0x0A] @ ''type Foos = {}[];'' @
                  [CHR 0x0A, CHR 0x0A] @ ''type Foos = {}[];'' @ [CHR 0x0A] @
                  ''const Foos = PropTypes.arrayOf(PropTypes.shape({}));'' @ [CHR 0x0A]))
   \<and> ''Foos'' \<in> set (typesAndInterfaces (statements arrayOfFile))"
proof (intro conjI)
  show "run aliasHost ''Foos.js'' arrayOfFile0 (Options None None) arrayOfText0 =
      Inr (Some arrayOfText)"
    by code_simp
next
  show "runUpdates host ''Foos.js'' arrayOfFile options =
       Inr (Some
         [Insert 54
            ([CHR 0x0A, CHR 0x0A] @
             printed host arrayOfFile
               (StatementNode (TypeAliasDeclaration synthetic ''Foos''
                  (ArrayTypeNode
                     (getTypeFromPropTypesObjectLiteral host
                        (Some (ObjectLiteralExpression (TextRange 102 102 104)))
                        arrayOfFile options)))))])"
    by (simp add: eval_defs arrayOfFile_def arrayOfText_def)
next
  show "run aliasHost ''Foos.js'' arrayOfFile (Options None None) arrayOfText =
       Inr (Some (importLine @ [CHR 0x0A, CHR 0x0A] @ ''type Foos = {}[];'' @
                  [CHR 0x0A, CHR 0x0A] @ ''type Foos = {}[];'' @ [CHR 0x0A] @
                  ''const Foos = PropTypes.arrayOf(PropTypes.shape({}));'' @ [CHR 0x0A]))"
    by code_simp
next
  show "''Foos'' \<in> set (typesAndInterfaces (statements arrayOfFile))"
    by (simp add: arrayOfFile_def importPropTypes_def)
qed

subsection \<open>The first declaration of a variable statement\<close>

lemma addsOnly_refl: "addsOnly P st st"
  by (simp add: addsOnly_def)

lemma addsOnly_trans: "addsOnly P a b \<Longrightarrow> addsOnly P b c \<Longrightarrow> addsOnly P a c"
  unfolding addsOnly_def by (metis append.assoc list_all_append)

lemma addsOnly_push: "P u \<Longrightarrow> addsOnly P st (push u st)"
  by (simp add: addsOnly_def push_def)

lemma addsOnly_import:
  "addsOnly (editOfFirstDeclaration src node d) st (insertPropTypesRequireableNode host sf st)"
  by (simp add: addsOnly_def insertPropTypesRequireableNode_def)

lemma addsOnly_split:
  "addsOnly (editOfFirstDeclaration (sourceText sf) node d) st
     (splitVariableExport host sf node shapeName st)"
  unfolding splitVariableExport_def Let_def
  by (rule addsOnly_trans [OF addsOnly_push addsOnly_push])
     (simp_all add: EXPORT_KEYWOARD_def)

lemma addsOnly_shapeVariable:
  "addsOnly (editOfFirstDeclaration (sourceText sf) node d) st
     (shapeVariable host sf options node exportModifier d shapeNode st)"
proof -
  let ?P = "editOfFirstDeclaration (sourceText sf) node d"
  let ?st1 = "insertPropTypesRequireableNode host sf st"
  have 1: "addsOnly ?P st ?st1" by (rule addsOnly_import)
  show ?thesis
    unfolding shapeVariable_def Let_def
    by (auto intro!: addsOnly_trans [OF 1] addsOnly_trans [OF _ addsOnly_split]
        addsOnly_trans [OF addsOnly_push addsOnly_push] addsOnly_push)
qed

lemma addsOnly_arrayOfShapesVariable:
  "addsOnly (editOfFirstDeclaration (sourceText sf) node d) st
     (arrayOfShapesVariable host sf options node exportModifier d shapeNode st)"
proof -
  let ?P = "editOfFirstDeclaration (sourceText sf) node d"
  let ?st1 = "insertPropTypesRequireableNode host sf st"
  have 1: "addsOnly ?P st ?st1" by (rule addsOnly_import)
  show ?thesis
    unfolding arrayOfShapesVariable_def Let_def
    by (auto intro!: addsOnly_trans [OF 1] addsOnly_trans [OF _ addsOnly_split] addsOnly_push)
qed

lemma visitStatement_first_declaration_edits:
  assumes "visitStatement host sf options baseName (VariableStatement node mods flags (d # ds)) st
           = Inr st'"
  shows "addsOnly (editOfFirstDeclaration (sourceText sf) node d) st st'"
proof -
  let ?P = "editOfFirstDeclaration (sourceText sf) node d"
  note intros = addsOnly_refl addsOnly_shapeVariable addsOnly_arrayOfShapesVariable
    addsOnly_trans [OF addsOnly_shapeVariable addsOnly_arrayOfShapesVariable]
  from assms show ?thesis
    by (auto simp: Let_def intro: intros
        split: option.splits if_splits Expression.splits list.splits sum.splits bool.splits)
qed

lemma visitStatements_first_declarations:
  "visitStatements host sf options baseName nodes st =
   visitStatements host sf options baseName (map firstDeclarationOnly nodes) st"
proof (induction nodes arbitrary: st)
  case Nil
  show ?case by simp
next
  case (Cons node nodes)
  have "visitStatement host sf options baseName (firstDeclarationOnly node) st =
        visitStatement host sf options baseName node st"
    by (cases node) (auto split: list.splits)
  with Cons show ?case by (simp split: sum.splits)
qed

text \<open>
  C10.  A variable statement is handled as if it had its first declaration only: the
  result of the loop body does not depend on the declarations after the first, and the
  whole loop gives the same result on the statements with those declarations cut off.
  Every edit the statement causes is placed by the statement's own range or by the range
  of the first declaration; the one replace covers the first declaration and nothing
  after it.
\<close>

theorem later_declarations_not_examined:
  "visitStatement host sf options baseName (VariableStatement node mods flags (d # ds)) st =
   visitStatement host sf options baseName (VariableStatement node mods flags [d]) st
   \<and> visitStatements host sf options baseName nodes st =
     visitStatements host sf options baseName (map firstDeclarationOnly nodes) st
   \<and> (visitStatement host sf options baseName (VariableStatement node mods flags (d # ds)) st
        = Inr st'
      \<longrightarrow> addsOnly (editOfFirstDeclaration (sourceText sf) node d) st st')"
proof (intro conjI impI)
  show "visitStatement host sf options baseName (VariableStatement node mods flags (d # ds)) st =
        visitStatement host sf options baseName (VariableStatement node mods flags [d]) st"
    by simp
next
  show "visitStatements host sf options baseName nodes st =
        visitStatements host sf options baseName (map firstDeclarationOnly nodes) st"
    by (rule visitStatements_first_declarations)
next
  assume "visitStatement host sf options baseName (VariableStatement node mods flags (d # ds)) st
        = Inr st'"
  then show "addsOnly (editOfFirstDeclaration (sourceText sf) node d) st st'"
    by (rule visitStatement_first_declaration_edits)
qed

text \<open>On \<^verbatim>\<open>const A = PropTypes.shape({}), B = PropTypes.shape({});\<close> an alias is inserted
  before the statement and the declaration of \<open>A\<close>, offsets 42 to 65, is replaced.\<close>

theorem later_declarations_not_examined_witness:
  "visitStatement exampleHost twoShapesFile (Options None None) ''AB.js''
     (VariableStatement (TextRange 35 36 91) [] ConstFlag [declarationA, declarationB])
     (RunState False []) =
   Inr (RunState False
     [Insert 35 ([CHR 0x0A, CHR 0x0A] @ ''<node>''), Replace 42 23 ''<node>''])
   \<and> addsOnly (editOfFirstDeclaration twoShapesText (TextRange 35 36 91) declarationA)
       (RunState False [])
       (RunState False
          [Insert 35 ([CHR 0x0A, CHR 0x0A] @ ''<node>''), Replace 42 23 ''<node>''])"
proof -
  note inst = later_declarations_not_examined
    [of exampleHost twoShapesFile "Options None None" "''AB.js''" "TextRange 35 36 91" "[]"
        ConstFlag declarationA "[declarationB]" "RunState False []" "[]"
        "RunState False [Insert 35 ([CHR 0x0A, CHR 0x0A] @ ''<node>''), Replace 42 23 ''<node>'']"]
  have one: "visitStatement exampleHost twoShapesFile (Options None None) ''AB.js''
     (VariableStatement (TextRange 35 36 91) [] ConstFlag [declarationA]) (RunState False []) =
     Inr (RunState False
       [Insert 35 ([CHR 0x0A, CHR 0x0A] @ ''<node>''), Replace 42 23 ''<node>''])"
    by (simp add: eval_defs declarationA_def twoShapesFile_def twoShapesText_def exampleHost_def
        printed_def stripTrailingSpaces_def)
  from inst one have two: "visitStatement exampleHost twoShapesFile (Options None None) ''AB.js''
     (VariableStatement (TextRange 35 36 91) [] ConstFlag [declarationA, declarationB])
     (RunState False []) =
     Inr (RunState False
       [Insert 35 ([CHR 0x0A, CHR 0x0A] @ ''<node>''), Replace 42 23 ''<node>''])"
    by simp
  from inst two have "addsOnly (editOfFirstDeclaration (sourceText twoShapesFile)
       (TextRange 35 36 91) declarationA) (RunState False [])
       (RunState False
          [Insert 35 ([CHR 0x0A, CHR 0x0A] @ ''<node>''), Replace 42 23 ''<node>''])"
    by blast
  with two show ?thesis by (simp add: twoShapesFile_def)
qed

section \<open>Existing annotations\<close>

text \<open>
  C5.  The function \<open>typedFunction\<close> has the type \<^verbatim>\<open>string\<close> on its parameter and the
  return type \<^verbatim>\<open>boolean\<close>; its comment gives \<^verbatim>\<open>number\<close> for both.  \<open>visitParameters\<close>
  returns the typed parameter as it is, but in a new array, because the declaration has
  a parameter tag.  So \<open>visitFunctionLike\<close> does not stop at its test for an unchanged
  declaration: it has the parameter list replaced and hands the return type that is
  already there to \<^verbatim>\<open>addReturnAnnotation\<close>, the call that writes a return annotation,
  whether returns are to be annotated or not.  The same function without the parameter
  tag causes no call.
\<close>

theorem existing_return_type_annotated_again:
  "parameters typedFunction = [typedParam]
   \<and> paramType typedParam = Some (KeywordTypeNode StringKeyword)
   \<and> returnType typedFunction = Some (KeywordTypeNode BooleanKeyword)
   \<and> visitParameters defaultTypeMap (anyType None) typedFunction = Inr [typedParam]
   \<and> visitFunctionLike True defaultTypeMap (anyType None) typedFunction False =
       Inr [ReplaceNodes (Parameters [typedParam]) (Parameters [typedParam]) (Some False),
            AddReturnAnnotation (KeywordTypeNode BooleanKeyword)]
   \<and> visitFunctionLike False defaultTypeMap (anyType None) typedFunction False =
       Inr [ReplaceNodes (Parameters [typedParam]) (Parameters [typedParam]) (Some False),
            AddReturnAnnotation (KeywordTypeNode BooleanKeyword)]
   \<and> visitFunctionLike True defaultTypeMap (anyType None) untaggedFunction False = Inr []"
proof -
  have p: "visitParameters defaultTypeMap (anyType None) typedFunction = Inr [typedParam]"
    by (simp add: visitParameters_def hasJSDocParameterTags_def visitParameter_def
        typedFunction_def typedParam_def)
  have q: "visitParameters defaultTypeMap (anyType None) untaggedFunction = Inr [typedParam]"
    by (simp add: visitParameters_def hasJSDocParameterTags_def untaggedFunction_def)
  have m: "getModifiers typedFunction = (None, True)" "getModifiers untaggedFunction = (None, True)"
    by (simp_all add: getModifiers_def typedFunction_def untaggedFunction_def)
  have t: "hasJSDocParameterTags typedFunction" "\<not> hasJSDocParameterTags untaggedFunction"
    by (simp_all add: hasJSDocParameterTags_def typedFunction_def untaggedFunction_def)
  have r: "visitReturnType defaultTypeMap (anyType None) typedFunction =
      Some (KeywordTypeNode BooleanKeyword)"
    by (simp add: visitReturnType_def typedFunction_def)
  have s: "nodeKind typedFunction = FunctionDeclaration" "nodeKind untaggedFunction = FunctionDeclaration"
    "returnType typedFunction = Some (KeywordTypeNode BooleanKeyword)"
    "returnType untaggedFunction = Some (KeywordTypeNode BooleanKeyword)"
    "parameters typedFunction = [typedParam]"
    by (simp_all add: typedFunction_def untaggedFunction_def)
  have 1: "visitFunctionLike True defaultTypeMap (anyType None) typedFunction False =
       Inr [ReplaceNodes (Parameters [typedParam]) (Parameters [typedParam]) (Some False),
            AddReturnAnnotation (KeywordTypeNode BooleanKeyword)]"
    by (simp add: visitFunctionLike_def p m t r s canHaveModifiers_def hasModifiersProperty_def)
  have 2: "visitFunctionLike False defaultTypeMap (anyType None) typedFunction False =
       Inr [ReplaceNodes (Parameters [typedParam]) (Parameters [typedParam]) (Some False),
            AddReturnAnnotation (KeywordTypeNode BooleanKeyword)]"
    by (simp add: visitFunctionLike_def p m t s canHaveModifiers_def hasModifiersProperty_def)
  have 3: "visitFunctionLike True defaultTypeMap (anyType None) untaggedFunction False = Inr []"
    by (simp add: visitFunctionLike_def q m t s canHaveModifiers_def hasModifiersProperty_def)
  have 4: "paramType typedParam = Some (KeywordTypeNode StringKeyword)"
    by (simp add: typedParam_def)
  from p 1 2 3 4 s(3,5) show ?thesis by simp
qed

end
